theory Spec2Isabelle
  imports
    Complex_Main
    "HOL-Library.Char_ord"
    "HOL-Library.List_Lexorder"
begin

section \<open>Values shared by the pipeline\<close>

text \<open>
  A JavaScript \<open>number\<close> that holds a byte count, a megabyte figure or a quota is
  modelled as a rational. The sizes the handlers compute are \<open>bytes / 1024 / 1024\<close>
  and twice that: divisions and multiplications by powers of two, which are exact in
  binary floating point for every byte count below \<open>2^53\<close>, so the comparisons the
  code makes are the comparisons of the rationals.
\<close>

type_synonym number = rat

text \<open>A thrown \<open>Error\<close>, by its \<open>message\<close>.\<close>

datatype exn = Error string


text \<open>
  A browser \<open>File\<close>: its name and its bytes. Text is a list of bytes (UTF-8); the
  characters the code looks for (\<open>.\<close>, \<open>|\<close>, tab, comma, newline) are ASCII, and no
  byte of a multi-byte UTF-8 sequence is ASCII, so counting bytes counts characters.
\<close>

record File =
  file_name :: string
  file_bytes :: string

section \<open>Delimiter selection (src/lib/duckdb.ts)\<close>

text \<open>
  \<open>String.prototype.toLowerCase\<close> on the ASCII letters. No character outside ASCII
  has a lower-case form made of the letters of \<open>pipe\<close>, \<open>psv\<close> or \<open>tsv\<close>, so for
  the comparisons of \<open>importCSV\<close> the ASCII table is the whole table.
\<close>

definition toLowerCase_char :: "char \<Rightarrow> char" where
  "toLowerCase_char c =
     (case map_of (zip ''ABCDEFGHIJKLMNOPQRSTUVWXYZ'' ''abcdefghijklmnopqrstuvwxyz'') c of
        None \<Rightarrow> c
      | Some l \<Rightarrow> l)"

definition toLowerCase :: "string \<Rightarrow> string" where
  "toLowerCase s = map toLowerCase_char s"

text \<open>
  \<open>s.split(d)\<close> for a one-character separator: the segments between the separators,
  never an empty array.
\<close>

fun split_acc :: "char \<Rightarrow> string \<Rightarrow> string \<Rightarrow> string list" where
  "split_acc d acc [] = [rev acc]"
| "split_acc d acc (c # cs) =
     (if c = d then rev acc # split_acc d [] cs else split_acc d (c # acc) cs)"

definition split :: "char \<Rightarrow> string \<Rightarrow> string list" where
  "split d s = split_acc d [] s"

text \<open>\<open>Array.prototype.pop\<close>, for its value: the last element, \<open>undefined\<close> on \<open>[]\<close>.\<close>

fun pop :: "'a list \<Rightarrow> 'a option" where
  "pop [] = None"
| "pop [x] = Some x"
| "pop (x # y # ys) = pop (y # ys)"

abbreviation pipe_char :: char where "pipe_char \<equiv> CHR ''|''"
abbreviation tab_char :: char where "tab_char \<equiv> CHR 0x09"
abbreviation comma_char :: char where "comma_char \<equiv> CHR '',''"
abbreviation newline_char :: char where "newline_char \<equiv> CHR 0x0A"

text \<open>\<open>(line.match(/c/g) || []).length\<close>: how often the character occurs.\<close>

definition match_count :: "char \<Rightarrow> string \<Rightarrow> nat" where
  "match_count c line = length (filter (\<lambda>x. x = c) line)"

text \<open>\<open>text.split('\n')[0] || ''\<close>\<close>

definition firstLine :: "string \<Rightarrow> string" where
  "firstLine text = (case split newline_char text of [] \<Rightarrow> [] | l # _ \<Rightarrow> l)"

text \<open>
  \<open>detectDelimiter\<close> (duckdb.ts, lines 107-124): the first 8192 bytes, their first
  line, the three counts, and the two tests in the order of the source.
\<close>

definition pipeCount :: "File \<Rightarrow> nat" where
  "pipeCount f = match_count pipe_char (firstLine (take 8192 (file_bytes f)))"

definition tabCount :: "File \<Rightarrow> nat" where
  "tabCount f = match_count tab_char (firstLine (take 8192 (file_bytes f)))"

definition commaCount :: "File \<Rightarrow> nat" where
  "commaCount f = match_count comma_char (firstLine (take 8192 (file_bytes f)))"

definition detectDelimiter :: "File \<Rightarrow> char" where
  "detectDelimiter f =
     (if pipeCount f > 0 \<and> pipeCount f \<ge> tabCount f \<and> pipeCount f \<ge> commaCount f
      then pipe_char
      else if tabCount f > 0 \<and> tabCount f \<ge> commaCount f then tab_char
      else comma_char)"

text \<open>\<open>file.name.toLowerCase().split('.').pop()\<close>\<close>

definition fileExtension :: "File \<Rightarrow> string option" where
  "fileExtension f = pop (split CHR ''.'' (toLowerCase (file_name f)))"

text \<open>
  The delimiter \<open>importCSV\<close> passes to \<open>read_csv\<close> (duckdb.ts, lines 134-147; the
  same lines stand in \<open>convertCsvToParquet\<close>, 200-211).
\<close>

definition importCSV_delimiter :: "File \<Rightarrow> char" where
  "importCSV_delimiter f =
     (if fileExtension f = Some ''pipe'' \<or> fileExtension f = Some ''psv'' then pipe_char
      else if fileExtension f = Some ''tsv'' then tab_char
      else if fileExtension f = Some ''txt'' then detectDelimiter f
      else detectDelimiter f)"

text \<open>How often a candidate delimiter occurs in the sampled first line.\<close>

definition delimiterCount :: "File \<Rightarrow> char \<Rightarrow> nat" where
  "delimiterCount f d = match_count d (firstLine (take 8192 (file_bytes f)))"

subsection \<open>Sample files\<close>

text \<open>
  \<open>sales.txt\<close> has 3 pipes, 1 tab and no comma in its first line; the extension of
  \<open>notes.PSV\<close> decides although its line has commas only; in \<open>tie.csv\<close> pipe and
  comma both occur once.
\<close>

definition sales_txt :: File where
  "sales_txt =
     \<lparr>file_name = ''sales.txt'',
      file_bytes = ''id|name|city|zip'' @ [tab_char] @ ''x'' @ [newline_char] @ ''1,2,3''\<rparr>"

definition notes_psv :: File where
  "notes_psv = \<lparr>file_name = ''notes.PSV'', file_bytes = ''a,b,c''\<rparr>"

definition tie_csv :: File where
  "tie_csv = \<lparr>file_name = ''tie.csv'', file_bytes = ''a|b,c''\<rparr>"

text \<open>
  Four more: an extension \<open>tsv\<close> over a line of commas, a line where the tab
  occurs most often, one where the comma does, and one without any of the three.
\<close>

definition table_tsv :: File where
  "table_tsv = \<lparr>file_name = ''table.tsv'', file_bytes = ''a,b,c''\<rparr>"

definition tabs_txt :: File where
  "tabs_txt =
     \<lparr>file_name = ''tabs.txt'',
      file_bytes = ''a'' @ [tab_char] @ ''b'' @ [tab_char] @ ''c|d''\<rparr>"

definition commas_csv :: File where
  "commas_csv = \<lparr>file_name = ''commas.csv'', file_bytes = ''a,b,c,d|e''\<rparr>"

definition plain_txt :: File where
  "plain_txt = \<lparr>file_name = ''plain'', file_bytes = ''one column''\<rparr>"

section \<open>The embedded engine, as the code drives it (src/lib/duckdb.ts)\<close>

text \<open>
  DuckDB-WASM is an external collaborator. The code sees three things of it: the tables
  of the main schema, the virtual file system that \<open>registerFileHandle\<close> and
  \<open>COPY ... TO\<close> write and \<open>copyFileToBuffer\<close> reads, and two capabilities whose
  results the code does not compute itself: parsing delimited text into a relation
  (\<open>read_csv\<close> with \<open>auto_detect=true, sample_size=-1\<close>) and encoding a relation as
  a Parquet file. Both capabilities are parameters; each is a function of its input and
  may fail. Table names are taken as the plain identifiers the handlers produce, so the
  query templates name the table they are given. The engine is taken as started:
  \<open>initDuckDB\<close> and \<open>getConnection\<close> hand out the one instance and its one connection.
\<close>

type_synonym bytes = string

record column =
  col_name :: string
  col_type :: string

record 'r relation =
  rel_columns :: "column list"
  rel_rows :: "'r list"

record 'r engine =
  catalog :: "(string \<times> 'r relation) list"
  files :: "string \<rightharpoonup> bytes"

text \<open>
  What the host gives and the repository does not define: the two engine capabilities,
  the number format of the browser's locale and the ZIP compressor of JSZip.
\<close>

record 'r host =
  read_csv :: "bytes \<Rightarrow> char \<Rightarrow> exn + 'r relation"
  to_parquet :: "'r relation \<Rightarrow> exn + bytes"
  toLocaleString :: "nat \<Rightarrow> string"
  generateAsync :: "(string \<rightharpoonup> bytes) \<Rightarrow> bytes"

record TableInfo =
  name :: string
  rowCount :: nat
  columns :: "column list"

text \<open>
  \<open>getTables\<close> (lines 61-96): the base tables of the main schema
  \<open>ORDER BY table_name\<close>, each with its \<open>COUNT(*)\<close> and its columns in ordinal
  position.
\<close>

definition getTables :: "'r engine \<Rightarrow> TableInfo list" where
  "getTables e =
     map (\<lambda>(n, r). \<lparr>name = n, rowCount = length (rel_rows r), columns = rel_columns r\<rparr>)
       (sort_key fst (catalog e))"





text \<open>\<open>COPY "t" TO 'f' (FORMAT PARQUET)\<close>: the table's encoding becomes the file \<open>f\<close>.\<close>

definition query_copy_to_parquet ::
  "'r host \<Rightarrow> string \<Rightarrow> string \<Rightarrow> 'r engine \<Rightarrow> (exn + unit) \<times> 'r engine" where
  "query_copy_to_parquet H tableName fileName e =
     (case map_of (catalog e) tableName of
        None \<Rightarrow> (Inl (Error ''Catalog Error: Table does not exist''), e)
      | Some r \<Rightarrow>
          (case to_parquet H r of
             Inl err \<Rightarrow> (Inl err, e)
           | Inr b \<Rightarrow> (Inr (), e\<lparr>files := (files e)(fileName \<mapsto> b)\<rparr>)))"

text \<open>\<open>db.copyFileToBuffer(f)\<close>\<close>

definition copyFileToBuffer :: "string \<Rightarrow> 'r engine \<Rightarrow> exn + bytes" where
  "copyFileToBuffer fileName e =
     (case files e fileName of
        None \<Rightarrow> Inl (Error ''File not found'')
      | Some b \<Rightarrow> Inr b)"

subsection \<open>Size estimation\<close>

text \<open>
  \<open>estimateDatabaseSize\<close> (lines 241-261). The loop exports each table to
  \<open>_estimate_<name>.parquet\<close>, reads the file back and adds its length; nothing
  removes the file.
\<close>

fun estimate_loop ::
  "'r host \<Rightarrow> TableInfo list \<Rightarrow> nat \<Rightarrow> 'r engine \<Rightarrow> (exn + nat) \<times> 'r engine" where
  "estimate_loop H [] totalSize e = (Inr totalSize, e)"
| "estimate_loop H (t # ts) totalSize e =
     (let fileName = ''_estimate_'' @ name t @ ''.parquet'' in
      case query_copy_to_parquet H (name t) fileName e of
        (Inl err, e1) \<Rightarrow> (Inl err, e1)
      | (Inr _, e1) \<Rightarrow>
          (case copyFileToBuffer fileName e1 of
             Inl err \<Rightarrow> (Inl err, e1)
           | Inr buffer \<Rightarrow> estimate_loop H ts (totalSize + length buffer) e1))"

definition estimateDatabaseSize :: "'r host \<Rightarrow> 'r engine \<Rightarrow> (exn + nat) \<times> 'r engine" where
  "estimateDatabaseSize H e =
     (let tables = getTables e in
      if length tables = 0 then (Inr 0, e) else estimate_loop H tables 0 e)"

text \<open>
  For the statements about the estimate: the file the loop writes for a table, and the
  length of a table's encoding (0 where there is none).
\<close>

definition estimate_file :: "TableInfo \<Rightarrow> string" where
  "estimate_file t = ''_estimate_'' @ name t @ ''.parquet''"


section \<open>The bundle's text members (src/lib/pushToRemote.ts, src/lib/duckdb.ts)\<close>

subsection \<open>JSON.stringify(value, null, 2)\<close>

text \<open>
  The values the manifest is made of, and their serialisation with a two-space gap as
  ECMAScript defines it: a non-empty array or object puts each element on a line of its
  own, one level deeper, and a key is followed by a colon and a space. Row counts are
  the \<open>COUNT(*)\<close> of a table, naturals below \<open>2^53\<close>, which print as their decimal
  digits.
\<close>

datatype json =
    JString string
  | JNumber nat
  | JBool bool
  | JArray "json list"
  | JObject "(string \<times> json) list"

text \<open>\<open>Array.prototype.join\<close>\<close>

fun join :: "string \<Rightarrow> string list \<Rightarrow> string" where
  "join sep [] = []"
| "join sep [x] = x"
| "join sep (x # y # ys) = x @ sep @ join sep (y # ys)"

fun decimal :: "nat \<Rightarrow> string" where
  "decimal n =
     (if n < 10 then [''0123456789'' ! n]
      else decimal (n div 10) @ [''0123456789'' ! (n mod 10)])"

abbreviation quote_char :: char where "quote_char \<equiv> CHR 0x22"
abbreviation backslash_char :: char where "backslash_char \<equiv> CHR 0x5C"

text \<open>
  \<open>QuoteJSONString\<close>: the quote and the backslash are escaped, the control characters
  are written by their short escapes or as \<open>\u00XX\<close>.
\<close>

definition json_escape :: "char \<Rightarrow> string" where
  "json_escape c =
     (if c = quote_char then [backslash_char, quote_char]
      else if c = backslash_char then [backslash_char, backslash_char]
      else if c = CHR 0x08 then [backslash_char, CHR ''b'']
      else if c = CHR 0x0C then [backslash_char, CHR ''f'']
      else if c = newline_char then [backslash_char, CHR ''n'']
      else if c = CHR 0x0D then [backslash_char, CHR ''r'']
      else if c = tab_char then [backslash_char, CHR ''t'']
      else if (of_char c :: nat) < 32
      then [backslash_char, CHR ''u'', CHR ''0'', CHR ''0'',
            ''0123456789abcdef'' ! ((of_char c :: nat) div 16),
            ''0123456789abcdef'' ! ((of_char c :: nat) mod 16)]
      else [c])"

definition json_quote :: "string \<Rightarrow> string" where
  "json_quote s = [quote_char] @ concat (map json_escape s) @ [quote_char]"

fun stringify_at :: "string \<Rightarrow> json \<Rightarrow> string" where
  "stringify_at indent (JString s) = json_quote s"
| "stringify_at indent (JNumber n) = decimal n"
| "stringify_at indent (JBool b) = (if b then ''true'' else ''false'')"
| "stringify_at indent (JArray xs) =
     (if xs = [] then ''[]''
      else ''['' @ [newline_char] @ (indent @ ''  '') @
           join ('','' @ [newline_char] @ (indent @ ''  ''))
             (map (stringify_at (indent @ ''  '')) xs) @
           [newline_char] @ indent @ '']'')"
| "stringify_at indent (JObject ps) =
     (if ps = [] then ''{}''
      else ''{'' @ [newline_char] @ (indent @ ''  '') @
           join ('','' @ [newline_char] @ (indent @ ''  ''))
             (map (\<lambda>p. json_quote (fst p) @ '': '' @ stringify_at (indent @ ''  '') (snd p)) ps) @
           [newline_char] @ indent @ ''}'')"

definition JSON_stringify_2 :: "json \<Rightarrow> string" where
  "JSON_stringify_2 v = stringify_at [] v"

subsection \<open>manifest.json, schema.sql and README.md\<close>

record manifest_table =
  m_name :: string
  m_files :: "string list"
  m_rowCount :: nat

record manifest =
  m_tables :: "manifest_table list"
  m_chunked :: bool

text \<open>The entry the export loop pushes for a table (pushToRemote.ts, lines 204-208).\<close>

definition manifest_entry :: "TableInfo \<Rightarrow> manifest_table" where
  "manifest_entry t =
     \<lparr>m_name = name t, m_files = [name t @ ''.parquet''], m_rowCount = rowCount t\<rparr>"

text \<open>The manifest object as a JSON value, its keys in insertion order.\<close>

definition manifest_table_value :: "manifest_table \<Rightarrow> json" where
  "manifest_table_value m =
     JObject [(''name'', JString (m_name m)),
              (''files'', JArray (map JString (m_files m))),
              (''rowCount'', JNumber (m_rowCount m))]"

definition manifest_value :: "manifest \<Rightarrow> json" where
  "manifest_value m =
     JObject [(''tables'', JArray (map manifest_table_value (m_tables m))),
              (''chunked'', JBool (m_chunked m))]"

definition manifest_json :: "manifest \<Rightarrow> string" where
  "manifest_json m = JSON_stringify_2 (manifest_value m)"

text \<open>
  The statement of one table (pushToRemote.ts, lines 217-218; duckdb.ts, 293-294):
  the columns as \<open>"name" TYPE\<close>, joined by a comma, a newline and two spaces.
\<close>

definition column_ddl :: "column \<Rightarrow> string" where
  "column_ddl c = [quote_char] @ col_name c @ [quote_char] @ '' '' @ col_type c"

definition create_table_statement :: "TableInfo \<Rightarrow> string" where
  "create_table_statement t =
     ''CREATE TABLE '' @ [quote_char] @ name t @ [quote_char] @ '' ('' @ [newline_char] @ ''  '' @
     join ('','' @ [newline_char] @ ''  '') (map column_ddl (columns t)) @
     [newline_char] @ '');''"

definition schemaStatements :: "TableInfo list \<Rightarrow> string list" where
  "schemaStatements tables = map create_table_statement tables"

definition schema_sql :: "TableInfo list \<Rightarrow> string" where
  "schema_sql tables = join [newline_char, newline_char] (schemaStatements tables)"

text \<open>The README (pushToRemote.ts, lines 223-241); its row counts are in the locale's format.\<close>

definition readme_md :: "'r host \<Rightarrow> TableInfo list \<Rightarrow> string" where
  "readme_md H tables =
     ''# DuckIt Export'' @ [newline_char, newline_char] @
     ''This ZIP bundle was created by DuckIt (https://duckit.tigzig.com).'' @
     [newline_char, newline_char] @
     ''## Contents'' @ [newline_char] @
     ''- manifest.json: Table metadata'' @ [newline_char] @
     ''- schema.sql: DDL statements'' @ [newline_char] @
     ''- *.parquet: Table data files'' @ [newline_char, newline_char] @
     ''## Tables'' @ [newline_char] @
     join [newline_char]
       (map (\<lambda>t. ''- '' @ name t @ '': '' @ toLocaleString H (rowCount t) @ '' rows'') tables) @
     [newline_char, newline_char] @
     ''## Usage'' @ [newline_char] @
     ''Import into DuckDB:'' @ [newline_char] @
     ''```sql'' @ [newline_char] @
     ''-- For each table:'' @ [newline_char] @
     ''CREATE TABLE table_name AS SELECT * FROM read_parquet('' @ [CHR 0x27] @
     ''table_name.parquet'' @ [CHR 0x27] @ '');'' @ [newline_char] @
     ''```'' @ [newline_char]"

subsection \<open>The two bundle exporters\<close>

text \<open>
  A JSZip object, by the data of its members; \<open>zip.file(name, data)\<close> adds the member
  or replaces the one of that name.
\<close>

type_synonym zip = "string \<rightharpoonup> bytes"

definition zip_file :: "string \<Rightarrow> bytes \<Rightarrow> zip \<Rightarrow> zip" where
  "zip_file memberName data z = z(memberName \<mapsto> data)"

text \<open>
  The export loop of \<open>exportAsZipBundle\<close> (pushToRemote.ts, lines 183-209). The
  progress callbacks report and change nothing; they are left out.
\<close>

fun bundle_loop ::
  "'r host \<Rightarrow> TableInfo list \<Rightarrow> zip \<Rightarrow> manifest \<Rightarrow> 'r engine \<Rightarrow>
     (exn + zip \<times> manifest) \<times> 'r engine" where
  "bundle_loop H [] z m e = (Inr (z, m), e)"
| "bundle_loop H (t # ts) z m e =
     (let fileName = name t @ ''.parquet'' in
      case query_copy_to_parquet H (name t) fileName e of
        (Inl err, e1) \<Rightarrow> (Inl err, e1)
      | (Inr _, e1) \<Rightarrow>
          (case copyFileToBuffer fileName e1 of
             Inl err \<Rightarrow> (Inl err, e1)
           | Inr buffer \<Rightarrow>
               bundle_loop H ts (zip_file fileName buffer z)
                 (m\<lparr>m_tables := m_tables m @
                    [\<lparr>m_name = name t, m_files = [fileName], m_rowCount = rowCount t\<rparr>]\<rparr>) e1))"

text \<open>
  The JSZip object \<open>exportAsZipBundle\<close> has built when it starts to compress
  (lines 163-242).
\<close>

definition zip_bundle :: "'r host \<Rightarrow> 'r engine \<Rightarrow> (exn + zip) \<times> 'r engine" where
  "zip_bundle H e =
     (let tables = getTables e in
      if length tables = 0 then (Inl (Error ''No tables to export''), e)
      else
        case bundle_loop H tables Map.empty \<lparr>m_tables = [], m_chunked = False\<rparr> e of
          (Inl err, e1) \<Rightarrow> (Inl err, e1)
        | (Inr (z, m), e1) \<Rightarrow>
            (Inr (zip_file ''README.md'' (readme_md H tables)
                   (zip_file ''schema.sql'' (schema_sql tables)
                     (zip_file ''manifest.json'' (manifest_json m) z))), e1))"



text \<open>The export loop of \<open>exportToDuckDB\<close> (duckdb.ts, lines 277-282).\<close>

fun parquet_loop ::
  "'r host \<Rightarrow> TableInfo list \<Rightarrow> zip \<Rightarrow> 'r engine \<Rightarrow> (exn + zip) \<times> 'r engine" where
  "parquet_loop H [] z e = (Inr z, e)"
| "parquet_loop H (t # ts) z e =
     (let fileName = name t @ ''.parquet'' in
      case query_copy_to_parquet H (name t) fileName e of
        (Inl err, e1) \<Rightarrow> (Inl err, e1)
      | (Inr _, e1) \<Rightarrow>
          (case copyFileToBuffer fileName e1 of
             Inl err \<Rightarrow> (Inl err, e1)
           | Inr buffer \<Rightarrow> parquet_loop H ts (zip_file fileName buffer z) e1))"

text \<open>The JSZip object \<open>exportToDuckDB\<close> has built when it starts to compress (lines 264-296).\<close>

definition duckdb_zip :: "'r host \<Rightarrow> 'r engine \<Rightarrow> (exn + zip) \<times> 'r engine" where
  "duckdb_zip H e =
     (let tables = getTables e in
      if length tables = 0 then (Inl (Error ''No tables to export''), e)
      else
        case parquet_loop H tables Map.empty e of
          (Inl err, e1) \<Rightarrow> (Inl err, e1)
        | (Inr z, e1) \<Rightarrow>
            (let m = \<lparr>m_tables =
                        map (\<lambda>t. \<lparr>m_name = name t, m_files = [name t @ ''.parquet''],
                                  m_rowCount = rowCount t\<rparr>) tables,
                      m_chunked = False\<rparr>
             in (Inr (zip_file ''schema.sql'' (schema_sql tables)
                       (zip_file ''manifest.json'' (manifest_json m) z)), e1)))"

text \<open>\<open>exportToDuckDB\<close> (duckdb.ts, lines 263-306)\<close>

definition exportToDuckDB :: "'r host \<Rightarrow> 'r engine \<Rightarrow> (exn + bytes) \<times> 'r engine" where
  "exportToDuckDB H e =
     (case duckdb_zip H e of
        (Inl err, e1) \<Rightarrow> (Inl err, e1)
      | (Inr z, e1) \<Rightarrow> (Inr (generateAsync H z), e1))"

text \<open>The manifest of a list of tables: one entry per table, in the order of the list.\<close>

definition manifest_of :: "TableInfo list \<Rightarrow> manifest" where
  "manifest_of tables = \<lparr>m_tables = map manifest_entry tables, m_chunked = False\<rparr>"

subsection \<open>A sample session\<close>




definition users_rel :: "(string list) relation" where
  "users_rel =
     \<lparr>rel_columns = [\<lparr>col_name = ''id'', col_type = ''BIGINT''\<rparr>,
                     \<lparr>col_name = ''name'', col_type = ''VARCHAR''\<rparr>],
      rel_rows = [[''1'', ''ann''], [''2'', ''bob''], [''3'', ''cy'']]\<rparr>"

definition orders_rel :: "(string list) relation" where
  "orders_rel =
     \<lparr>rel_columns = [\<lparr>col_name = ''total'', col_type = ''DOUBLE''\<rparr>],
      rel_rows = [[''9.5'']]\<rparr>"

definition session1 :: "(string list) engine" where
  "session1 = \<lparr>catalog = [(''users'', users_rel), (''orders'', orders_rel)], files = Map.empty\<rparr>"





section \<open>The transfer client (src/lib/pushToRemote.ts)\<close>

datatype StorageTier = temp | persistent | permanent

text \<open>
  A value read from a response body: what \<open>JSON.parse\<close> can return, and \<open>undefined\<close>
  for a property that is absent.
\<close>

datatype jsval =
    Undefined
  | Null
  | Bool bool
  | Num rat
  | Str string
  | Arr "jsval list"
  | Obj "(string \<times> jsval) list"

text \<open>
  Reading a property: a \<open>TypeError\<close> on \<open>null\<close> and \<open>undefined\<close>, the value or
  \<open>undefined\<close> on an object, \<open>undefined\<close> on every other value (none of the
  properties the client reads exists on a primitive or an array).
\<close>

fun get_property :: "jsval \<Rightarrow> string \<Rightarrow> exn + jsval" where
  "get_property Undefined k = Inl (Error (''Cannot read properties of undefined (reading '' @ k @ '')''))"
| "get_property Null k = Inl (Error (''Cannot read properties of null (reading '' @ k @ '')''))"
| "get_property (Obj ps) k = Inr (case map_of ps k of None \<Rightarrow> Undefined | Some v \<Rightarrow> v)"
| "get_property v k = Inr Undefined"

text \<open>\<open>ToBoolean\<close>, as \<open>a || b\<close> applies it.\<close>

fun truthy :: "jsval \<Rightarrow> bool" where
  "truthy Undefined = False"
| "truthy Null = False"
| "truthy (Bool b) = b"
| "truthy (Num n) = (n \<noteq> 0)"
| "truthy (Str s) = (s \<noteq> [])"
| "truthy v = True"

definition js_or :: "jsval \<Rightarrow> jsval \<Rightarrow> jsval" where
  "js_or a b = (if truthy a then a else b)"

text \<open>
  What the network answers, as values. A \<open>fetch\<close> either rejects or gives a status and
  a body; an \<open>XMLHttpRequest\<close> ends with exactly one of the events \<open>load\<close>, \<open>error\<close>
  and \<open>abort\<close> (no timeout is set), or \<open>open\<close> throws for a URL it cannot parse.
  \<open>JSON.parse\<close> and the conversion of a value to the text of an \<open>Error\<close> message are
  the platform's.
\<close>

datatype fetch_outcome = FetchRejected exn | FetchResponse nat string

datatype xhr_outcome = XhrLoad nat string | XhrError | XhrAbort | XhrOpenThrew exn

record network =
  post_upload_token :: "string \<Rightarrow> nat \<Rightarrow> StorageTier \<Rightarrow> fetch_outcome"
  xhr_post :: "jsval \<Rightarrow> string \<Rightarrow> bytes \<Rightarrow> xhr_outcome"
  JSON_parse :: "string \<Rightarrow> exn + jsval"
  ToString :: "jsval \<Rightarrow> string"

text \<open>\<open>response.ok\<close> and the test of \<open>uploadWithToken\<close>: a status from 200 to 299.\<close>

definition status_ok :: "nat \<Rightarrow> bool" where
  "status_ok st = (200 \<le> st \<and> st < 300)"

text \<open>\<open>getUploadToken\<close> (lines 75-98)\<close>

definition getUploadToken ::
  "network \<Rightarrow> string \<Rightarrow> nat \<Rightarrow> StorageTier \<Rightarrow> exn + jsval" where
  "getUploadToken N fileName contentLength storageTier =
     (case post_upload_token N fileName contentLength storageTier of
        FetchRejected err \<Rightarrow> Inl err
      | FetchResponse st body \<Rightarrow>
          if \<not> status_ok st
          then Inl (Error (''Failed to get upload token: '' @ decimal st @ '' - '' @ body))
          else JSON_parse N body)"

text \<open>
  \<open>uploadWithToken\<close> (lines 105-155): the promise settles in the listener of the one
  event the request ends with. In the branch of a failing status, a body that does not
  parse, and a parsed \<open>null\<close> whose property cannot be read, both land in the inner
  \<open>catch\<close>.
\<close>

definition uploadWithToken ::
  "network \<Rightarrow> bytes \<Rightarrow> string \<Rightarrow> jsval \<Rightarrow> exn + jsval" where
  "uploadWithToken N data fileName tokenResponse =
     (case get_property tokenResponse ''full_upload_url'' of
        Inl err \<Rightarrow> Inl err
      | Inr url \<Rightarrow>
          (case xhr_post N url fileName data of
             XhrOpenThrew err \<Rightarrow> Inl err
           | XhrError \<Rightarrow> Inl (Error ''Network error during upload'')
           | XhrAbort \<Rightarrow> Inl (Error ''Upload cancelled'')
           | XhrLoad st responseText \<Rightarrow>
               if status_ok st then
                 (case JSON_parse N responseText of
                    Inl _ \<Rightarrow> Inl (Error ''Invalid response from server'')
                  | Inr v \<Rightarrow> Inr v)
               else
                 (case JSON_parse N responseText of
                    Inl _ \<Rightarrow> Inl (Error (''Upload failed: HTTP '' @ decimal st))
                  | Inr err \<Rightarrow>
                      (case (get_property err ''detail'', get_property err ''error'') of
                         (Inr detail, Inr e) \<Rightarrow>
                           Inl (Error (ToString N
                             (js_or detail (js_or e (Str (''HTTP '' @ decimal st))))))
                       | _ \<Rightarrow> Inl (Error (''Upload failed: HTTP '' @ decimal st))))))"

record PushToRemoteResult =
  success :: bool
  downloadUrl :: jsval
  filename :: jsval
  sizeBytes :: "nat option"
  expiresInHours :: jsval
  error :: "string option"



text \<open>
  \<open>tokenResponse.token.substring(0, 8)\<close>, the argument of a \<open>console.log\<close>: it throws
  unless the token is a string.
\<close>

definition token_prefix :: "jsval \<Rightarrow> exn + string" where
  "token_prefix tokenResponse =
     (case get_property tokenResponse ''token'' of
        Inl err \<Rightarrow> Inl err
      | Inr (Str t) \<Rightarrow> Inr (take 8 t)
      | Inr Undefined \<Rightarrow> Inl (Error ''Cannot read properties of undefined (reading substring)'')
      | Inr Null \<Rightarrow> Inl (Error ''Cannot read properties of null (reading substring)'')
      | Inr _ \<Rightarrow> Inl (Error ''tokenResponse.token.substring is not a function''))"

text \<open>
  The steps after the bytes are known, which the three entry points repeat: the token,
  the log line, the upload, and the result object built from the response.
\<close>

definition token_then_upload ::
  "network \<Rightarrow> bytes \<Rightarrow> string \<Rightarrow> StorageTier \<Rightarrow> exn + PushToRemoteResult" where
  "token_then_upload N data fileName storageTier =
     (case getUploadToken N fileName (length data) storageTier of
        Inl err \<Rightarrow> Inl err
      | Inr tokenResponse \<Rightarrow>
          (case token_prefix tokenResponse of
             Inl err \<Rightarrow> Inl err
           | Inr _ \<Rightarrow>
               (case uploadWithToken N data fileName tokenResponse of
                  Inl err \<Rightarrow> Inl err
                | Inr result \<Rightarrow>
                    (case (get_property result ''download_url'', get_property result ''filename'',
                           get_property result ''expires_in_hours'') of
                       (Inr url, Inr fname, Inr hours) \<Rightarrow>
                         Inr \<lparr>success = True, downloadUrl = url, filename = fname,
                              sizeBytes = Some (length data), expiresInHours = hours,
                              error = None\<rparr>
                     | (Inl err, _, _) \<Rightarrow> Inl err
                     | (_, Inl err, _) \<Rightarrow> Inl err
                     | (_, _, Inl err) \<Rightarrow> Inl err))))"




text \<open>
  \<open>name.replace(/\.(csv|tsv|txt|pipe|psv)$/i, r)\<close>: a final \<open>.csv\<close>, \<open>.tsv\<close>,
  \<open>.txt\<close>, \<open>.pipe\<close> or \<open>.psv\<close>, in any case of letters, is replaced.
\<close>

definition delimited_suffixes :: "string list" where
  "delimited_suffixes = [''.csv'', ''.tsv'', ''.txt'', ''.pipe'', ''.psv'']"

definition ends_with :: "string \<Rightarrow> string \<Rightarrow> bool" where
  "ends_with s suffix = (length suffix \<le> length s \<and> drop (length s - length suffix) s = suffix)"



subsection \<open>Sample networks\<close>








section \<open>Quota checks (src/lib/neon-db.ts, src/lib/pushToRemote.ts)\<close>

datatype Role = pro | admin

text \<open>\<open>getStorageTier\<close>\<close>

definition getStorageTier :: "Role \<Rightarrow> StorageTier" where
  "getStorageTier role = (if role = admin then permanent else persistent)"

text \<open>
  \<open>Record<string, number | null>\<close>: a key is absent, or holds \<open>null\<close> or a number.
\<close>

type_synonym limits = "string \<rightharpoonup> number option"

text \<open>\<open>x || d\<close> for an optional number: the default replaces \<open>undefined\<close>, \<open>null\<close> and \<open>0\<close>.\<close>

definition or_number :: "number option \<Rightarrow> number \<Rightarrow> number" where
  "or_number x d = (case x of None \<Rightarrow> d | Some n \<Rightarrow> if n = 0 then d else n)"

text \<open>\<open>x ?? null\<close> for a key of a limits record.\<close>

definition nullish_null :: "number option option \<Rightarrow> number option" where
  "nullish_null x = (case x of None \<Rightarrow> None | Some v \<Rightarrow> v)"

text \<open>
  What the awaited calls of the handlers return, as values: the metadata store's
  answers to \<open>user.limits\<close> and \<open>files.count\<close>, the answer of \<open>/api/status\<close>, and the
  outcome of \<open>estimateDatabaseSize\<close>.
\<close>

record status_data =
  d_available_mb :: "number option"
  d_usage_percent :: "number option"
  d_file_count :: "number option"
  d_can_upload :: "bool option"
  d_max_file_size_mb :: "number option"

datatype status_reply = StatusFailed | StatusNotOk nat | StatusOk status_data

record awaited =
  isNeonDataConfigured :: bool
  user_limits :: "string \<Rightarrow> exn + limits option"
  files_count :: "string \<Rightarrow> exn + number option"
  status :: status_reply
  estimated :: "exn + nat"

text \<open>\<open>getEffectiveLimits\<close> (neon-db.ts): \<open>result.limits || {}\<close>, and \<open>{}\<close> on any error.\<close>

definition getEffectiveLimits :: "awaited \<Rightarrow> string \<Rightarrow> limits" where
  "getEffectiveLimits A email =
     (case user_limits A email of
        Inl _ \<Rightarrow> Map.empty
      | Inr None \<Rightarrow> Map.empty
      | Inr (Some l) \<Rightarrow> l)"

text \<open>\<open>getUserFileCount\<close> (neon-db.ts): \<open>result.count || 0\<close>, and \<open>0\<close> on any error.\<close>

definition getUserFileCount :: "awaited \<Rightarrow> string \<Rightarrow> number" where
  "getUserFileCount A email =
     (if \<not> isNeonDataConfigured A then 0
      else case files_count A email of
             Inl _ \<Rightarrow> 0
           | Inr c \<Rightarrow> or_number c 0)"

text \<open>
  The \<open>reason\<close> of a refused validation, by the numbers its text is made of:
  \<open>You have reached your file limit (N files)...\<close> and
  \<open>File size (S MB) exceeds your limit (M MB).\<close>
\<close>

datatype validation_reason = FileLimitReached number | FileSizeExceeds number number

record UploadValidation =
  allowed :: bool
  reason :: "validation_reason option"
  userFileCount :: "number option"
  maxFiles :: "number option"

text \<open>\<open>validateUpload\<close> (duckdb.ts as staged, lines 558-599)\<close>

definition validateUpload :: "awaited \<Rightarrow> string \<Rightarrow> number \<Rightarrow> limits \<Rightarrow> UploadValidation" where
  "validateUpload A userEmail fileSizeMb limits =
     (let count = getUserFileCount A userEmail;
          maxF = nullish_null (limits ''max_files'')
      in if maxF \<noteq> None \<and> count \<ge> the maxF
         then \<lparr>allowed = False, reason = Some (FileLimitReached (the maxF)),
               userFileCount = Some count, maxFiles = maxF\<rparr>
         else
           (let maxFileSizeMb = nullish_null (limits ''max_file_size_mb'')
            in if maxFileSizeMb \<noteq> None \<and> fileSizeMb > the maxFileSizeMb
               then \<lparr>allowed = False,
                     reason = Some (FileSizeExceeds fileSizeMb (the maxFileSizeMb)),
                     userFileCount = Some count, maxFiles = maxF\<rparr>
               else \<lparr>allowed = True, reason = None,
                     userFileCount = Some count, maxFiles = maxF\<rparr>))"

record StorageStatus =
  available_mb :: number
  usage_percent :: number
  file_count :: number
  can_upload :: bool
  max_file_size_mb :: number

text \<open>
  \<open>getStorageStatus\<close> (pushToRemote.ts, lines 17-40): \<open>null\<close> when the request fails
  or its status is not ok; otherwise the fields with their defaults
  (\<open>available_mb || 0\<close>, \<open>can_upload ?? true\<close>).
\<close>

definition getStorageStatus :: "awaited \<Rightarrow> StorageStatus option" where
  "getStorageStatus A =
     (case status A of
        StatusFailed \<Rightarrow> None
      | StatusNotOk _ \<Rightarrow> None
      | StatusOk d \<Rightarrow>
          Some \<lparr>available_mb = or_number (d_available_mb d) 0,
                usage_percent = or_number (d_usage_percent d) 0,
                file_count = or_number (d_file_count d) 0,
                can_upload = (case d_can_upload d of None \<Rightarrow> True | Some b \<Rightarrow> b),
                max_file_size_mb = or_number (d_max_file_size_mb d) 150\<rparr>)"

section \<open>The publish handlers (src/pages/Home.tsx)\<close>

text \<open>The state and context values the handlers close over.\<close>

record NeonUser =
  user_id :: string
  email :: string

record Home =
  user :: "NeonUser option"
  isAllowed :: bool
  userStorageTier :: StorageTier
  userRole :: Role
  isRoleLoading :: bool
  keepPersistent :: bool
  keepPersistentQuick :: bool
  quickStagedFile :: "File option"

text \<open>\<open>user?.email\<close>, where it is truthy.\<close>

definition user_email :: "Home \<Rightarrow> string option" where
  "user_email h =
     (case user h of
        None \<Rightarrow> None
      | Some u \<Rightarrow> if email u = [] then None else Some (email u))"

text \<open>\<open>getEffectiveStorageTier\<close> (lines 134-140)\<close>

definition getEffectiveStorageTier :: "Home \<Rightarrow> bool \<Rightarrow> StorageTier" where
  "getEffectiveStorageTier h checkboxChecked =
     (if \<not> isAllowed h \<or> \<not> checkboxChecked then temp else userStorageTier h)"

text \<open>
  How a handler's checks end. An error banner is \<open>setError(text)\<close>, given by the
  numbers the text is made of (the size printed with one decimal, then the limit); the
  two modals are \<open>setFileLimitInfo({userFileCount, maxFiles})\<close> and
  \<open>setStorageInfo({usedMb, maxMb, fileSizeMb})\<close>, each with its \<open>setShow...(true)\<close>.
  After any of the three, and after an exception, the handler returns without an
  upload. \<open>Proceed\<close> is the call of the upload function with the tier.
\<close>

datatype banner =
    PleaseWait
  | DatabaseTooLarge number number
  | ParquetTooLarge number number
  | TypedFileTooLarge string number number
  | FileTooLarge number number
  | NoAcceptedFile
  | OneFileAtATime
  | Failed exn

datatype preflight =
    SetError banner
  | FileLimitModal number number
  | StorageFullModal number number number
  | Proceed StorageTier

text \<open>The awaited calls a handler has made, in order.\<close>

datatype call = EstimateDatabaseSize | GetEffectiveLimits | GetUserFileCount | GetStorageStatus

text \<open>\<open>size / 1024 / 1024\<close>\<close>

definition megabytes :: "nat \<Rightarrow> number" where
  "megabytes n = of_nat n / 1024 / 1024"

text \<open>
  The checks for a non-temporary tier that the three handlers share line by line
  (handlePushToRemote 488-526, handleQuickUpload 289-338, handleParquetUploadToServer
  767-810): the limits, \<open>validateUpload\<close>, then the capacity of the persistent tier
  against the estimated size. \<open>calls\<close> are the awaited calls made before.
\<close>

definition persistent_checks ::
  "awaited \<Rightarrow> string \<Rightarrow> number \<Rightarrow> number \<Rightarrow> StorageTier \<Rightarrow> call list \<Rightarrow> preflight \<times> call list" where
  "persistent_checks A userEmail fileSizeMb estimatedMb storageTier calls =
     (let limits = getEffectiveLimits A userEmail;
          validation = validateUpload A userEmail fileSizeMb limits
      in if \<not> allowed validation
         then (FileLimitModal (or_number (userFileCount validation) 0)
                              (or_number (maxFiles validation) 2),
               calls @ [GetEffectiveLimits, GetUserFileCount])
         else
           (case getStorageStatus A of
              None \<Rightarrow>
                (Proceed storageTier,
                 calls @ [GetEffectiveLimits, GetUserFileCount, GetStorageStatus])
            | Some storageStatus \<Rightarrow>
                if estimatedMb > available_mb storageStatus \<or> \<not> can_upload storageStatus
                then (StorageFullModal 0 (available_mb storageStatus) estimatedMb,
                      calls @ [GetEffectiveLimits, GetUserFileCount, GetStorageStatus])
                else (Proceed storageTier,
                      calls @ [GetEffectiveLimits, GetUserFileCount, GetStorageStatus])))"

text \<open>
  \<open>handlePushToRemote\<close> (lines 452-569), up to the call of \<open>pushToRemote\<close>. An
  exception of \<open>estimateDatabaseSize\<close> reaches the handler's \<open>catch\<close>.
\<close>

definition handlePushToRemote :: "Home \<Rightarrow> awaited \<Rightarrow> preflight \<times> call list" where
  "handlePushToRemote h A =
     (let storageTier = getEffectiveStorageTier h (keepPersistent h)
      in if userRole h = admin then (Proceed storageTier, [])
         else
           (case estimated A of
              Inl err \<Rightarrow> (SetError (Failed err), [EstimateDatabaseSize])
            | Inr parquetSizeBytes \<Rightarrow>
                (let parquetSizeMb = megabytes parquetSizeBytes;
                     estimatedDuckDbMb = parquetSizeMb * 2
                 in if estimatedDuckDbMb > 75
                    then (SetError (DatabaseTooLarge estimatedDuckDbMb 75), [EstimateDatabaseSize])
                    else if keepPersistent h \<and> isAllowed h \<and> user_email h \<noteq> None \<and>
                            storageTier \<noteq> temp
                    then persistent_checks A (the (user_email h)) 0 estimatedDuckDbMb
                           storageTier [EstimateDatabaseSize]
                    else (Proceed storageTier, [EstimateDatabaseSize]))))"

text \<open>
  \<open>handleQuickUpload\<close> (lines 263-380), for the staged file, up to the call of
  \<open>uploadDirectFile\<close>.
\<close>

definition handleQuickUpload :: "Home \<Rightarrow> File \<Rightarrow> awaited \<Rightarrow> preflight \<times> call list" where
  "handleQuickUpload h f A =
     (let fileSizeMb = megabytes (length (file_bytes f));
          storageTier = getEffectiveStorageTier h (keepPersistentQuick h)
      in if userRole h = admin then (Proceed storageTier, [])
         else if keepPersistentQuick h \<and> isAllowed h \<and> user_email h \<noteq> None \<and>
                 storageTier \<noteq> temp
         then
           (let isParquet = ends_with (toLowerCase (file_name f)) ''.parquet'';
                estimatedFileSizeMb = (if isParquet then fileSizeMb * 2 else fileSizeMb)
            in persistent_checks A (the (user_email h)) fileSizeMb estimatedFileSizeMb
                 storageTier [])
         else (Proceed storageTier, []))"

text \<open>
  \<open>handleParquetUploadToServer\<close> (lines 741-850), for the converted buffer, up to the
  call of \<open>uploadParquetBuffer\<close>.
\<close>

definition handleParquetUploadToServer ::
  "Home \<Rightarrow> bytes \<Rightarrow> awaited \<Rightarrow> preflight \<times> call list" where
  "handleParquetUploadToServer h localBuffer A =
     (let fileSizeMb = megabytes (length localBuffer)
      in if userRole h \<noteq> admin \<and> fileSizeMb > 75
         then (SetError (ParquetTooLarge fileSizeMb 75), [])
         else
           (let storageTier = getEffectiveStorageTier h (keepPersistent h)
            in if userRole h = admin then (Proceed storageTier, [])
               else if keepPersistent h \<and> isAllowed h \<and> user_email h \<noteq> None \<and>
                       storageTier \<noteq> temp
               then persistent_checks A (the (user_email h)) fileSizeMb (fileSizeMb * 2)
                      storageTier []
               else (Proceed storageTier, [])))"

section \<open>The intake handlers and the loading of the role (src/pages/Home.tsx)\<close>

text \<open>\<open>/\.(a|b|...)$/i.test(name)\<close>\<close>

definition test_suffix :: "string list \<Rightarrow> string \<Rightarrow> bool" where
  "test_suffix suffixes n = (filter (ends_with (toLowerCase n)) suffixes \<noteq> [])"

definition quick_suffixes :: "string list" where
  "quick_suffixes = [''.parquet'', ''.duckdb'', ''.db'']"

text \<open>
  How an intake handler ends: it returns at once (no file was chosen), it sets an error
  and returns, or it takes the files on: to \<open>importCSV\<close>, to the staging slot, or to
  \<open>convertCsvToParquet\<close>.
\<close>

datatype intake =
    Ignored
  | Refused banner
  | Import "File list"
  | Stage File
  | Convert File

text \<open>\<open>handleBuildDrop\<close> (lines 153-185)\<close>

definition handleBuildDrop :: "Home \<Rightarrow> File list \<Rightarrow> intake" where
  "handleBuildDrop h dropped =
     (if isRoleLoading h then Refused PleaseWait
      else
        (let accepted = filter (\<lambda>f. test_suffix delimited_suffixes (file_name f)) dropped
         in if length accepted = 0 then Refused NoAcceptedFile else Import accepted))"

text \<open>\<open>handleBuildFileInput\<close> (lines 188-213)\<close>

definition handleBuildFileInput :: "Home \<Rightarrow> File list \<Rightarrow> intake" where
  "handleBuildFileInput h chosen =
     (if length chosen = 0 then Ignored
      else if isRoleLoading h then Refused PleaseWait
      else Import chosen)"

text \<open>\<open>handleQuickDrop\<close> (lines 216-260)\<close>

definition handleQuickDrop :: "Home \<Rightarrow> File list \<Rightarrow> intake" where
  "handleQuickDrop h dropped =
     (if isRoleLoading h then Refused PleaseWait
      else
        (case filter (\<lambda>f. test_suffix quick_suffixes (file_name f)) dropped of
           [] \<Rightarrow> Refused NoAcceptedFile
         | [f] \<Rightarrow>
             (let fileSizeMb = megabytes (length (file_bytes f));
                  isParquet = ends_with (toLowerCase (file_name f)) ''.parquet'';
                  isDuckDb = (ends_with (toLowerCase (file_name f)) ''.duckdb'' \<or>
                              ends_with (toLowerCase (file_name f)) ''.db'');
                  maxSizeMb = (if isParquet then 75 else 150)
              in if userRole h \<noteq> admin \<and> fileSizeMb > maxSizeMb
                 then Refused (TypedFileTooLarge
                        (if isParquet then ''Parquet'' else if isDuckDb then ''DuckDB'' else ''File'')
                        fileSizeMb maxSizeMb)
                 else Stage f)
         | _ \<Rightarrow> Refused OneFileAtATime))"

text \<open>\<open>handleQuickFileInput\<close> (lines 383-411); \<open>MAX_UPLOAD_SIZE_MB\<close> is 150.\<close>

definition MAX_UPLOAD_SIZE_MB :: number where
  "MAX_UPLOAD_SIZE_MB = 150"

definition handleQuickFileInput :: "Home \<Rightarrow> File list \<Rightarrow> intake" where
  "handleQuickFileInput h chosen =
     (case chosen of
        [] \<Rightarrow> Ignored
      | f # _ \<Rightarrow>
          if isRoleLoading h then Refused PleaseWait
          else if userRole h \<noteq> admin \<and> megabytes (length (file_bytes f)) > MAX_UPLOAD_SIZE_MB
          then Refused (FileTooLarge (megabytes (length (file_bytes f))) MAX_UPLOAD_SIZE_MB)
          else Stage f)"

text \<open>\<open>handleParquetDrop\<close> (lines 634-683)\<close>

definition handleParquetDrop :: "Home \<Rightarrow> File list \<Rightarrow> intake" where
  "handleParquetDrop h dropped =
     (if isRoleLoading h then Refused PleaseWait
      else
        (case filter (\<lambda>f. test_suffix delimited_suffixes (file_name f)) dropped of
           [] \<Rightarrow> Refused NoAcceptedFile
         | [f] \<Rightarrow> Convert f
         | _ \<Rightarrow> Refused OneFileAtATime))"

text \<open>\<open>handleParquetFileInput\<close> (lines 686-723)\<close>

definition handleParquetFileInput :: "Home \<Rightarrow> File list \<Rightarrow> intake" where
  "handleParquetFileInput h chosen =
     (case chosen of
        [] \<Rightarrow> Ignored
      | f # _ \<Rightarrow> if isRoleLoading h then Refused PleaseWait else Convert f)"

text \<open>
  The initial values of the state (lines 23-29, 43) and of the auth context, and the
  steps of the effect that loads the role (lines 109-131): it sets the loading flag,
  awaits \<open>getUserRole\<close>, which answers \<open>pro\<close> on any error, and then sets role, tier
  and flag together. The handlers are not told apart from a click between the two
  steps except by the flag.
\<close>

definition initial_Home :: Home where
  "initial_Home =
     \<lparr>user = None, isAllowed = False, userStorageTier = temp, userRole = pro,
      isRoleLoading = True, keepPersistent = False, keepPersistentQuick = False,
      quickStagedFile = None\<rparr>"

definition loadUserRole_start :: "Home \<Rightarrow> Home" where
  "loadUserRole_start h = h\<lparr>isRoleLoading := True\<rparr>"

definition loadUserRole_finish :: "Role \<Rightarrow> Home \<Rightarrow> Home" where
  "loadUserRole_finish role h =
     (if user_email h \<noteq> None \<and> isAllowed h
      then h\<lparr>userRole := role, userStorageTier := getStorageTier role, isRoleLoading := False\<rparr>
      else h\<lparr>userRole := pro, userStorageTier := temp, isRoleLoading := False\<rparr>)"

text \<open>
  The auth context reports a signed-in, allowed user; the effect depends on both values
  and starts again.
\<close>

definition signed_in :: "NeonUser \<Rightarrow> Home \<Rightarrow> Home" where
  "signed_in u h = loadUserRole_start (h\<lparr>user := Some u, isAllowed := True\<rparr>)"

subsection \<open>A sample visit\<close>

text \<open>
  A visitor arrives without a session, so the role loads at once as \<open>pro\<close> on the
  temporary tier. They stage a small Parquet file, sign in (the role starts to load
  again), tick \<open>Keep persistent\<close>, and press the upload button before the role has
  come back.
\<close>

definition small_parquet :: File where
  "small_parquet = \<lparr>file_name = ''data.parquet'', file_bytes = ''PAR1''\<rparr>"

definition ann :: NeonUser where
  "ann = \<lparr>user_id = ''u1'', email = ''ann@example.com''\<rparr>"

definition anonymous_Home :: Home where
  "anonymous_Home = loadUserRole_finish pro (loadUserRole_start initial_Home)"

definition staged_Home :: Home where
  "staged_Home = anonymous_Home\<lparr>quickStagedFile := Some small_parquet\<rparr>"

definition loading_Home :: Home where
  "loading_Home = (signed_in ann staged_Home)\<lparr>keepPersistent := True, keepPersistentQuick := True\<rparr>"

definition loaded_Home :: Home where
  "loaded_Home = loadUserRole_finish pro loading_Home"

text \<open>Services that answer: two files of at most two, and 10 MB left on the tier.\<close>

definition full_account :: awaited where
  "full_account =
     \<lparr>isNeonDataConfigured = True,
      user_limits = (\<lambda>_. Inr (Some (Map.empty(''max_files'' \<mapsto> Some 2)))),
      files_count = (\<lambda>_. Inr (Some 2)),
      status = StatusOk \<lparr>d_available_mb = Some 10, d_usage_percent = Some 99,
                         d_file_count = Some 40, d_can_upload = Some True,
                         d_max_file_size_mb = Some 150\<rparr>,
      estimated = Inr 13107200\<rparr>"

definition roomy_account :: awaited where
  "roomy_account = full_account\<lparr>files_count := (\<lambda>_. Inr (Some 1))\<rparr>"

text \<open>
  Further inputs: a converted buffer of 80 000 000 bytes, a tier that reports it cannot
  take uploads, and an account whose maximum is no file at all.
\<close>

definition big_buffer :: bytes where
  "big_buffer = replicate 80000000 (CHR ''x'')"

definition closed_account :: awaited where
  "closed_account =
     roomy_account\<lparr>status := StatusOk \<lparr>d_available_mb = Some 5000, d_usage_percent = None,
                         d_file_count = None, d_can_upload = Some False,
                         d_max_file_size_mb = None\<rparr>\<rparr>"

definition zero_limit_account :: awaited where
  "zero_limit_account =
     full_account\<lparr>user_limits := (\<lambda>_. Inr (Some (Map.empty(''max_files'' \<mapsto> Some 0)))),
                   files_count := (\<lambda>_. Inr (Some 0))\<rparr>"

definition admin_Home :: Home where
  "admin_Home = loadUserRole_finish admin loading_Home"

section \<open>Properties\<close>

subsection \<open>Delimiter selection\<close>

lemma delimiterCount_simps:
  "delimiterCount f pipe_char = pipeCount f"
  "delimiterCount f tab_char = tabCount f"
  "delimiterCount f comma_char = commaCount f"
  by (simp_all add: delimiterCount_def pipeCount_def tabCount_def commaCount_def)

lemma detectDelimiter_candidates:
  "detectDelimiter f \<in> {pipe_char, tab_char, comma_char}"
  by (simp add: detectDelimiter_def)

lemma detectDelimiter_highest:
  "pipeCount f \<le> delimiterCount f (detectDelimiter f)"
  "tabCount f \<le> delimiterCount f (detectDelimiter f)"
  "commaCount f \<le> delimiterCount f (detectDelimiter f)"
  by (auto simp add: detectDelimiter_def delimiterCount_simps)

lemma detectDelimiter_cases:
  "detectDelimiter f = pipe_char \<longleftrightarrow>
     pipeCount f > 0 \<and> pipeCount f \<ge> tabCount f \<and> pipeCount f \<ge> commaCount f"
  "detectDelimiter f = tab_char \<longleftrightarrow>
     \<not> (pipeCount f > 0 \<and> pipeCount f \<ge> tabCount f \<and> pipeCount f \<ge> commaCount f) \<and>
     tabCount f > 0 \<and> tabCount f \<ge> commaCount f"
  by (simp_all add: detectDelimiter_def)

lemma importCSV_delimiter_by_extension:
  "fileExtension f = Some ''pipe'' \<or> fileExtension f = Some ''psv'' \<Longrightarrow>
     importCSV_delimiter f = pipe_char"
  "fileExtension f = Some ''tsv'' \<Longrightarrow> importCSV_delimiter f = tab_char"
  "fileExtension f \<notin> {Some ''pipe'', Some ''psv'', Some ''tsv''} \<Longrightarrow>
     importCSV_delimiter f = detectDelimiter f"
  by (auto simp add: importCSV_delimiter_def)

text \<open>
  Claim C2, as the code has it. The extensions \<open>pipe\<close> and \<open>psv\<close> give the pipe and
  \<open>tsv\<close> gives the tab; every other extension gives what \<open>detectDelimiter\<close> infers
  from the first line of the first 8192 bytes. The inferred delimiter is one of pipe,
  tab and comma and none of the three occurs more often than it in that line. Where
  several candidates share the highest count the code prefers pipe to tab and tab to
  comma: comma is the result only where it occurs strictly more often than the other
  two, or where none of the three occurs at all (the fallback). In particular 3 pipes,
  1 tab and 0 commas give the pipe, and 0 of all three give the comma.
\<close>

theorem delimiter_selection:
  "(fileExtension f = Some ''pipe'' \<or> fileExtension f = Some ''psv'' \<longrightarrow>
      importCSV_delimiter f = pipe_char) \<and>
   (fileExtension f = Some ''tsv'' \<longrightarrow> importCSV_delimiter f = tab_char) \<and>
   (fileExtension f \<notin> {Some ''pipe'', Some ''psv'', Some ''tsv''} \<longrightarrow>
      importCSV_delimiter f = detectDelimiter f) \<and>
   detectDelimiter f \<in> {pipe_char, tab_char, comma_char} \<and>
   (\<forall>d \<in> {pipe_char, tab_char, comma_char}.
      delimiterCount f d \<le> delimiterCount f (detectDelimiter f)) \<and>
   (pipeCount f > 0 \<and> pipeCount f \<ge> tabCount f \<and> pipeCount f \<ge> commaCount f \<longrightarrow>
      detectDelimiter f = pipe_char) \<and>
   (tabCount f > pipeCount f \<and> tabCount f \<ge> commaCount f \<longrightarrow>
      detectDelimiter f = tab_char) \<and>
   (commaCount f > pipeCount f \<and> commaCount f > tabCount f \<longrightarrow>
      detectDelimiter f = comma_char) \<and>
   (pipeCount f = 0 \<and> tabCount f = 0 \<and> commaCount f = 0 \<longrightarrow>
      detectDelimiter f = comma_char) \<and>
   (pipeCount f = 3 \<and> tabCount f = 1 \<and> commaCount f = 0 \<longrightarrow>
      detectDelimiter f = pipe_char)"
proof -
  have ext: "(fileExtension f = Some ''pipe'' \<or> fileExtension f = Some ''psv'' \<longrightarrow>
      importCSV_delimiter f = pipe_char) \<and>
   (fileExtension f = Some ''tsv'' \<longrightarrow> importCSV_delimiter f = tab_char) \<and>
   (fileExtension f \<notin> {Some ''pipe'', Some ''psv'', Some ''tsv''} \<longrightarrow>
      importCSV_delimiter f = detectDelimiter f)"
    using importCSV_delimiter_by_extension [of f] by blast
  have highest: "\<forall>d \<in> {pipe_char, tab_char, comma_char}.
      delimiterCount f d \<le> delimiterCount f (detectDelimiter f)"
    using detectDelimiter_highest [of f] by (simp add: delimiterCount_simps)
  have order: "(pipeCount f > 0 \<and> pipeCount f \<ge> tabCount f \<and> pipeCount f \<ge> commaCount f \<longrightarrow>
      detectDelimiter f = pipe_char) \<and>
   (tabCount f > pipeCount f \<and> tabCount f \<ge> commaCount f \<longrightarrow>
      detectDelimiter f = tab_char) \<and>
   (commaCount f > pipeCount f \<and> commaCount f > tabCount f \<longrightarrow>
      detectDelimiter f = comma_char) \<and>
   (pipeCount f = 0 \<and> tabCount f = 0 \<and> commaCount f = 0 \<longrightarrow>
      detectDelimiter f = comma_char) \<and>
   (pipeCount f = 3 \<and> tabCount f = 1 \<and> commaCount f = 0 \<longrightarrow>
      detectDelimiter f = pipe_char)"
    by (simp add: detectDelimiter_def)
  from ext detectDelimiter_candidates [of f] highest order show ?thesis
    by blast
qed

text \<open>
  The theorem at the sample files: the two extensions that decide, and the four ways
  the counts can fall.
\<close>

lemma sample_file_counts:
  "fileExtension sales_txt = Some ''txt''"
  "pipeCount sales_txt = 3" "tabCount sales_txt = 1" "commaCount sales_txt = 0"
  "fileExtension notes_psv = Some ''psv''"
  "fileExtension table_tsv = Some ''tsv''"
  "fileExtension tabs_txt = Some ''txt''"
  "pipeCount tabs_txt = 1" "tabCount tabs_txt = 2" "commaCount tabs_txt = 0"
  "fileExtension commas_csv = Some ''csv''"
  "pipeCount commas_csv = 1" "tabCount commas_csv = 0" "commaCount commas_csv = 3"
  "fileExtension plain_txt = Some ''plain''"
  "pipeCount plain_txt = 0" "tabCount plain_txt = 0" "commaCount plain_txt = 0"
  by (simp_all add: sales_txt_def notes_psv_def table_tsv_def tabs_txt_def commas_csv_def
      plain_txt_def fileExtension_def toLowerCase_def toLowerCase_char_def split_def
      pipeCount_def tabCount_def commaCount_def match_count_def firstLine_def)

theorem delimiter_selection_witness:
  "fileExtension notes_psv = Some ''psv'' \<and> importCSV_delimiter notes_psv = pipe_char \<and>
   fileExtension table_tsv = Some ''tsv'' \<and> importCSV_delimiter table_tsv = tab_char \<and>
   fileExtension sales_txt = Some ''txt'' \<and>
   pipeCount sales_txt = 3 \<and> tabCount sales_txt = 1 \<and> commaCount sales_txt = 0 \<and>
   importCSV_delimiter sales_txt = pipe_char \<and>
   pipeCount tabs_txt = 1 \<and> tabCount tabs_txt = 2 \<and> commaCount tabs_txt = 0 \<and>
   importCSV_delimiter tabs_txt = tab_char \<and>
   pipeCount commas_csv = 1 \<and> tabCount commas_csv = 0 \<and> commaCount commas_csv = 3 \<and>
   importCSV_delimiter commas_csv = comma_char \<and>
   pipeCount plain_txt = 0 \<and> tabCount plain_txt = 0 \<and> commaCount plain_txt = 0 \<and>
   importCSV_delimiter plain_txt = comma_char"
  using delimiter_selection [of notes_psv] delimiter_selection [of table_tsv]
    delimiter_selection [of sales_txt] delimiter_selection [of tabs_txt]
    delimiter_selection [of commas_csv] delimiter_selection [of plain_txt]
  by (simp add: sample_file_counts)

text \<open>
  The claim as the specification words it makes comma the tie-break. The code does
  not: in \<open>a|b,c\<close> pipe and comma both occur once, the highest count, and the
  result is the pipe.
\<close>

theorem delimiter_tie_counterexample:
  "pipeCount tie_csv = 1 \<and> commaCount tie_csv = 1 \<and> tabCount tie_csv = 0 \<and>
   fileExtension tie_csv = Some ''csv'' \<and>
   importCSV_delimiter tie_csv = pipe_char \<and>
   importCSV_delimiter tie_csv \<noteq> comma_char"
  by (simp add: tie_csv_def importCSV_delimiter_def detectDelimiter_def fileExtension_def
      toLowerCase_def toLowerCase_char_def split_def pipeCount_def tabCount_def
      commaCount_def match_count_def firstLine_def)

subsection \<open>The sample visit, evaluated\<close>


lemma loading_Home_simps:
  "userRole loading_Home = pro" "isAllowed loading_Home"
  "user_email loading_Home = Some ''ann@example.com''"
  "userStorageTier loading_Home = temp" "keepPersistent loading_Home"
  "keepPersistentQuick loading_Home" "isRoleLoading loading_Home"
  "quickStagedFile loading_Home = Some small_parquet"
  by (simp_all add: loading_Home_def signed_in_def staged_Home_def anonymous_Home_def
      initial_Home_def loadUserRole_start_def loadUserRole_finish_def user_email_def ann_def)

lemma loaded_Home_simps:
  "userRole loaded_Home = pro" "isAllowed loaded_Home"
  "user_email loaded_Home = Some ''ann@example.com''"
  "userStorageTier loaded_Home = persistent" "keepPersistent loaded_Home"
  "keepPersistentQuick loaded_Home" "\<not> isRoleLoading loaded_Home"
  by (simp_all add: loaded_Home_def loading_Home_def signed_in_def staged_Home_def
      anonymous_Home_def initial_Home_def loadUserRole_start_def loadUserRole_finish_def
      user_email_def ann_def getStorageTier_def)

lemma admin_Home_simps:
  "userRole admin_Home = admin" "isAllowed admin_Home"
  "userStorageTier admin_Home = permanent" "keepPersistent admin_Home"
  "keepPersistentQuick admin_Home" "\<not> isRoleLoading admin_Home"
  by (simp_all add: admin_Home_def loading_Home_def signed_in_def staged_Home_def
      anonymous_Home_def initial_Home_def loadUserRole_start_def loadUserRole_finish_def
      user_email_def ann_def getStorageTier_def)

subsection \<open>Admission: the order of the checks\<close>

lemma persistent_checks_refused:
  "\<not> allowed (validateUpload A em sz (getEffectiveLimits A em)) \<Longrightarrow>
   persistent_checks A em sz est tier calls =
     (FileLimitModal
        (or_number (userFileCount (validateUpload A em sz (getEffectiveLimits A em))) 0)
        (or_number (maxFiles (validateUpload A em sz (getEffectiveLimits A em))) 2),
      calls @ [GetEffectiveLimits, GetUserFileCount])"
  by (simp add: persistent_checks_def Let_def)

lemma persistent_checks_allowed:
  "allowed (validateUpload A em sz (getEffectiveLimits A em)) \<Longrightarrow>
   persistent_checks A em sz est tier calls =
     (case getStorageStatus A of
        None \<Rightarrow> (Proceed tier, calls @ [GetEffectiveLimits, GetUserFileCount, GetStorageStatus])
      | Some st \<Rightarrow>
          if est > available_mb st \<or> \<not> can_upload st
          then (StorageFullModal 0 (available_mb st) est,
                calls @ [GetEffectiveLimits, GetUserFileCount, GetStorageStatus])
          else (Proceed tier, calls @ [GetEffectiveLimits, GetUserFileCount, GetStorageStatus]))"
  by (simp add: persistent_checks_def Let_def)



text \<open>
  The quick upload has its ceiling where the file is dropped: 75 MB for a Parquet
  file, 150 MB for a database file.
\<close>

lemma quick_drop_ceilings:
  assumes "\<not> isRoleLoading h" and "userRole h \<noteq> admin"
    and "test_suffix quick_suffixes (file_name f)"
  shows "megabytes (length (file_bytes f)) >
           (if ends_with (toLowerCase (file_name f)) ''.parquet'' then 75 else 150) \<Longrightarrow>
         \<exists>kind. handleQuickDrop h [f] =
           Refused (TypedFileTooLarge kind (megabytes (length (file_bytes f)))
             (if ends_with (toLowerCase (file_name f)) ''.parquet'' then 75 else 150))"
    and "megabytes (length (file_bytes f)) \<le>
           (if ends_with (toLowerCase (file_name f)) ''.parquet'' then 75 else 150) \<Longrightarrow>
         handleQuickDrop h [f] = Stage f"
  using assms
  by (simp_all add: handleQuickDrop_def Let_def not_less)

subsection \<open>Admission: the administrator\<close>

text \<open>
  Claim C3. When the role is \<open>admin\<close>, each of the three publish handlers goes on to
  its upload with the tier of the checkbox and has awaited no call at all: no size
  estimate, no limits, no file count, no capacity, whatever the size and whatever the
  services would answer. The two staging handlers of the quick upload skip their size
  ceiling as well: once the role is loaded, an accepted file is staged whatever its
  size.
\<close>

theorem admin_bypass:
  assumes "userRole h = admin"
  shows "handlePushToRemote h A = (Proceed (getEffectiveStorageTier h (keepPersistent h)), []) \<and>
         handleQuickUpload h f A =
           (Proceed (getEffectiveStorageTier h (keepPersistentQuick h)), []) \<and>
         handleParquetUploadToServer h b A =
           (Proceed (getEffectiveStorageTier h (keepPersistent h)), []) \<and>
         (\<not> isRoleLoading h \<and> test_suffix quick_suffixes (file_name f) \<longrightarrow>
            handleQuickDrop h [f] = Stage f) \<and>
         (\<not> isRoleLoading h \<longrightarrow> handleQuickFileInput h (f # fs) = Stage f)"
  using assms
  by (simp add: handlePushToRemote_def handleQuickUpload_def handleParquetUploadToServer_def
      handleQuickDrop_def handleQuickFileInput_def Let_def)

text \<open>
  The theorem for an administrator with the checkbox ticked, against the account that
  is full and an estimate of 400 000 000 bytes, with the buffer of 80 000 000 bytes.
\<close>

theorem admin_bypass_witness:
  "userRole admin_Home = admin \<and>
   handlePushToRemote admin_Home (full_account\<lparr>estimated := Inr 400000000\<rparr>) =
     (Proceed permanent, []) \<and>
   handleQuickUpload admin_Home \<lparr>file_name = ''big.parquet'', file_bytes = big_buffer\<rparr>
     (full_account\<lparr>estimated := Inr 400000000\<rparr>) = (Proceed permanent, []) \<and>
   handleParquetUploadToServer admin_Home big_buffer (full_account\<lparr>estimated := Inr 400000000\<rparr>) =
     (Proceed permanent, []) \<and>
   \<not> isRoleLoading admin_Home \<and>
   test_suffix quick_suffixes ''big.parquet'' \<and>
   handleQuickDrop admin_Home [\<lparr>file_name = ''big.parquet'', file_bytes = big_buffer\<rparr>] =
     Stage \<lparr>file_name = ''big.parquet'', file_bytes = big_buffer\<rparr> \<and>
   handleQuickFileInput admin_Home [\<lparr>file_name = ''big.parquet'', file_bytes = big_buffer\<rparr>] =
     Stage \<lparr>file_name = ''big.parquet'', file_bytes = big_buffer\<rparr>"
  using admin_bypass
    [of admin_Home "full_account\<lparr>estimated := Inr 400000000\<rparr>"
        "\<lparr>file_name = ''big.parquet'', file_bytes = big_buffer\<rparr>" big_buffer "[]"]
  by (simp add: admin_Home_simps getEffectiveStorageTier_def test_suffix_def quick_suffixes_def
      ends_with_def toLowerCase_def toLowerCase_char_def)

subsection \<open>Admission: the capacity of the tier\<close>

text \<open>
  Claim C4. The checks run in order and stop at the first refusal, so the capacity rule
  speaks of a caller who is not an administrator, whose request for a non-temporary
  tier stands (the checkbox is ticked, the user is signed in and allowed, the tier is
  not \<open>temp\<close>), who has passed the size ceiling and \<open>validateUpload\<close>, and for whom
  the status service has answered with \<open>st\<close>. Each handler has then asked for the
  status, last of its awaited calls, and compares it with its estimate: twice the
  Parquet size for a built database, for a Parquet file and for a converted buffer, the
  size itself for a database file. When the estimate exceeds \<open>available_mb\<close>, or
  \<open>can_upload\<close> is false, the handler ends with the storage-full modal, which holds
  the available and the estimated megabytes, and no upload starts.
\<close>

theorem capacity_rule:
  assumes "userRole h \<noteq> admin" and "isAllowed h" and "user_email h = Some em"
    and "userStorageTier h \<noteq> temp" and "getStorageStatus A = Some st"
  shows
   "(keepPersistent h \<and> estimated A = Inr n \<and> \<not> megabytes n * 2 > 75 \<and>
       allowed (validateUpload A em 0 (getEffectiveLimits A em)) \<and>
       (megabytes n * 2 > available_mb st \<or> \<not> can_upload st) \<longrightarrow>
       handlePushToRemote h A =
         (StorageFullModal 0 (available_mb st) (megabytes n * 2),
          [EstimateDatabaseSize, GetEffectiveLimits, GetUserFileCount, GetStorageStatus])) \<and>
    (keepPersistentQuick h \<and>
       allowed (validateUpload A em (megabytes (length (file_bytes f))) (getEffectiveLimits A em)) \<and>
       ((if ends_with (toLowerCase (file_name f)) ''.parquet''
         then megabytes (length (file_bytes f)) * 2 else megabytes (length (file_bytes f)))
          > available_mb st \<or> \<not> can_upload st) \<longrightarrow>
       handleQuickUpload h f A =
         (StorageFullModal 0 (available_mb st)
            (if ends_with (toLowerCase (file_name f)) ''.parquet''
             then megabytes (length (file_bytes f)) * 2 else megabytes (length (file_bytes f))),
          [GetEffectiveLimits, GetUserFileCount, GetStorageStatus])) \<and>
    (keepPersistent h \<and> \<not> megabytes (length b) > 75 \<and>
       allowed (validateUpload A em (megabytes (length b)) (getEffectiveLimits A em)) \<and>
       (megabytes (length b) * 2 > available_mb st \<or> \<not> can_upload st) \<longrightarrow>
       handleParquetUploadToServer h b A =
         (StorageFullModal 0 (available_mb st) (megabytes (length b) * 2),
          [GetEffectiveLimits, GetUserFileCount, GetStorageStatus]))"
proof -
  have tier: "\<And>c. c \<Longrightarrow> getEffectiveStorageTier h c = userStorageTier h"
    using assms(2) by (simp add: getEffectiveStorageTier_def)
  show ?thesis
    using assms tier
    by (auto simp add: handlePushToRemote_def handleQuickUpload_def
        handleParquetUploadToServer_def Let_def persistent_checks_allowed)
qed

text \<open>What the sample services answer.\<close>

lemma sample_limits:
  "getEffectiveLimits full_account em = Map.empty(''max_files'' \<mapsto> Some 2)"
  "getEffectiveLimits roomy_account em = Map.empty(''max_files'' \<mapsto> Some 2)"
  "getEffectiveLimits closed_account em = Map.empty(''max_files'' \<mapsto> Some 2)"
  "getEffectiveLimits zero_limit_account em = Map.empty(''max_files'' \<mapsto> Some 0)"
  by (simp_all add: getEffectiveLimits_def full_account_def roomy_account_def closed_account_def
      zero_limit_account_def)

lemma sample_counts:
  "getUserFileCount full_account em = 2"
  "getUserFileCount roomy_account em = 1"
  "getUserFileCount closed_account em = 1"
  "getUserFileCount zero_limit_account em = 0"
  by (simp_all add: getUserFileCount_def or_number_def full_account_def roomy_account_def
      closed_account_def zero_limit_account_def)

lemma sample_status:
  "getStorageStatus roomy_account =
     Some \<lparr>available_mb = 10, usage_percent = 99, file_count = 40, can_upload = True,
           max_file_size_mb = 150\<rparr>"
  "getStorageStatus closed_account =
     Some \<lparr>available_mb = 5000, usage_percent = 0, file_count = 0, can_upload = False,
           max_file_size_mb = 150\<rparr>"
  by (simp_all add: getStorageStatus_def or_number_def full_account_def roomy_account_def
      closed_account_def)

lemma sample_validation:
  "validateUpload roomy_account em sz (getEffectiveLimits roomy_account em) =
     \<lparr>allowed = True, reason = None, userFileCount = Some 1, maxFiles = Some 2\<rparr>"
  "validateUpload closed_account em sz (getEffectiveLimits closed_account em) =
     \<lparr>allowed = True, reason = None, userFileCount = Some 1, maxFiles = Some 2\<rparr>"
  by (simp_all add: validateUpload_def sample_limits sample_counts nullish_null_def Let_def)

lemma sample_estimates:
  "estimated full_account = Inr 13107200"
  "estimated roomy_account = Inr 13107200" "estimated closed_account = Inr 13107200"
  "estimated zero_limit_account = Inr 13107200" "megabytes 13107200 * 2 = 25"
  "megabytes (length ''PAR1'') = 1 / 262144"
  by (simp_all add: roomy_account_def full_account_def closed_account_def zero_limit_account_def
      megabytes_def)

text \<open>
  The theorem in the sample visit. With 10 MB left, 13 107 200 estimated bytes (12.5 MB
  of Parquet, 25 MB after doubling) end in the modal with 10 and 25; against the tier
  that reports \<open>can_upload = false\<close> a file of four bytes ends there too.
\<close>

theorem capacity_rule_witness:
  "userRole loaded_Home \<noteq> admin \<and> isAllowed loaded_Home \<and>
   user_email loaded_Home = Some ''ann@example.com'' \<and>
   userStorageTier loaded_Home \<noteq> temp \<and>
   available_mb (the (getStorageStatus roomy_account)) = 10 \<and>
   megabytes 13107200 * 2 = 25 \<and>
   handlePushToRemote loaded_Home roomy_account =
     (StorageFullModal 0 10 25,
      [EstimateDatabaseSize, GetEffectiveLimits, GetUserFileCount, GetStorageStatus]) \<and>
   \<not> can_upload (the (getStorageStatus closed_account)) \<and>
   handleQuickUpload loaded_Home small_parquet closed_account =
     (StorageFullModal 0 5000 (megabytes 4 * 2),
      [GetEffectiveLimits, GetUserFileCount, GetStorageStatus]) \<and>
   handleParquetUploadToServer loaded_Home ''PAR1'' closed_account =
     (StorageFullModal 0 5000 (megabytes 4 * 2),
      [GetEffectiveLimits, GetUserFileCount, GetStorageStatus])"
  using
    capacity_rule [of loaded_Home "''ann@example.com''" roomy_account
      "\<lparr>available_mb = 10, usage_percent = 99, file_count = 40, can_upload = True,
        max_file_size_mb = 150\<rparr>" 13107200 small_parquet "''PAR1''"]
    capacity_rule [of loaded_Home "''ann@example.com''" closed_account
      "\<lparr>available_mb = 5000, usage_percent = 0, file_count = 0, can_upload = False,
        max_file_size_mb = 150\<rparr>" 13107200 small_parquet "''PAR1''"]
  by (simp add: loaded_Home_simps sample_status sample_validation sample_estimates
      small_parquet_def ends_with_def toLowerCase_def toLowerCase_char_def megabytes_def)

text \<open>
  The other outcomes of the capacity check, for the built database: with no answer from
  the status service, and with an answer that leaves room, the upload goes on.
\<close>

lemma capacity_unknown_proceeds:
  assumes "userRole h \<noteq> admin" and "keepPersistent h" and "isAllowed h"
    and "user_email h = Some em" and "userStorageTier h \<noteq> temp"
    and "estimated A = Inr n" and "\<not> megabytes n * 2 > 75"
    and "allowed (validateUpload A em 0 (getEffectiveLimits A em))"
  shows "getStorageStatus A = None \<Longrightarrow>
           handlePushToRemote h A =
             (Proceed (userStorageTier h),
              [EstimateDatabaseSize, GetEffectiveLimits, GetUserFileCount, GetStorageStatus])"
    and "getStorageStatus A = Some st \<Longrightarrow>
         megabytes n * 2 \<le> available_mb st \<Longrightarrow> can_upload st \<Longrightarrow>
           handlePushToRemote h A =
             (Proceed (userStorageTier h),
              [EstimateDatabaseSize, GetEffectiveLimits, GetUserFileCount, GetStorageStatus])"
  using assms
  by (simp_all add: handlePushToRemote_def Let_def getEffectiveStorageTier_def
      persistent_checks_allowed)

subsection \<open>Admission: the file count\<close>

text \<open>
  Claim C5. \<open>validateUpload\<close> is the decision. With a maximum \<open>m\<close> (a key that is
  absent or \<open>null\<close> means no maximum) and a count of stored files at or above it, it
  refuses: \<open>allowed\<close> is false, the reason is the file limit, and the result carries
  the count and the maximum. With no maximum, or a count below it, the file-count check
  passes: the result is not the file-limit refusal, it still carries the count and the
  maximum, and it is allowed exactly when the size limit of the account, if any, is
  kept. \<open>handlePushToRemote\<close> reaches the decision for a caller who is not an
  administrator, whose request for a non-temporary tier stands and whose estimate is
  within the ceiling; it passes the size 0, so only the count decides. On a refusal it
  shows the file-limit modal with the count and with \<open>maxFiles || 2\<close>, which is the
  maximum unless the maximum is 0, and returns before the capacity is asked for; on a
  pass it goes on to ask for the capacity.
\<close>

theorem file_count_quota:
  "(nullish_null (L ''max_files'') = Some m \<and> getUserFileCount A em \<ge> m \<longrightarrow>
      validateUpload A em sz L =
        \<lparr>allowed = False, reason = Some (FileLimitReached m),
         userFileCount = Some (getUserFileCount A em), maxFiles = Some m\<rparr>) \<and>
   ((\<forall>m. nullish_null (L ''max_files'') = Some m \<longrightarrow> getUserFileCount A em < m) \<longrightarrow>
      (\<forall>k. reason (validateUpload A em sz L) \<noteq> Some (FileLimitReached k)) \<and>
      userFileCount (validateUpload A em sz L) = Some (getUserFileCount A em) \<and>
      maxFiles (validateUpload A em sz L) = nullish_null (L ''max_files'') \<and>
      (allowed (validateUpload A em sz L) \<longleftrightarrow>
         (\<forall>s. nullish_null (L ''max_file_size_mb'') = Some s \<longrightarrow> sz \<le> s))) \<and>
   (userRole h \<noteq> admin \<and> keepPersistent h \<and> isAllowed h \<and> user_email h = Some em \<and>
    userStorageTier h \<noteq> temp \<and> estimated A = Inr n \<and> \<not> megabytes n * 2 > 75 \<longrightarrow>
      (nullish_null (getEffectiveLimits A em ''max_files'') = Some m \<and>
       getUserFileCount A em \<ge> m \<longrightarrow>
         handlePushToRemote h A =
           (FileLimitModal (getUserFileCount A em) (or_number (Some m) 2),
            [EstimateDatabaseSize, GetEffectiveLimits, GetUserFileCount])) \<and>
      ((\<forall>m. nullish_null (getEffectiveLimits A em ''max_files'') = Some m \<longrightarrow>
              getUserFileCount A em < m) \<and>
       (\<forall>s. nullish_null (getEffectiveLimits A em ''max_file_size_mb'') = Some s \<longrightarrow> 0 \<le> s) \<longrightarrow>
         handlePushToRemote h A =
           persistent_checks A em 0 (megabytes n * 2) (userStorageTier h) [EstimateDatabaseSize] \<and>
         GetStorageStatus \<in> set (snd (handlePushToRemote h A))))"
proof -
  have deny: "validateUpload A em sz L =
        \<lparr>allowed = False, reason = Some (FileLimitReached m),
         userFileCount = Some (getUserFileCount A em), maxFiles = Some m\<rparr>"
    if "nullish_null (L ''max_files'') = Some m" "getUserFileCount A em \<ge> m" for L m sz
    using that by (simp add: validateUpload_def Let_def)
  have pass: "(\<forall>k. reason (validateUpload A em sz L) \<noteq> Some (FileLimitReached k)) \<and>
      userFileCount (validateUpload A em sz L) = Some (getUserFileCount A em) \<and>
      maxFiles (validateUpload A em sz L) = nullish_null (L ''max_files'') \<and>
      (allowed (validateUpload A em sz L) \<longleftrightarrow>
         (\<forall>s. nullish_null (L ''max_file_size_mb'') = Some s \<longrightarrow> sz \<le> s))"
    if "\<forall>m. nullish_null (L ''max_files'') = Some m \<longrightarrow> getUserFileCount A em < m" for L sz
    using that
    by (cases "nullish_null (L ''max_files'')"; cases "nullish_null (L ''max_file_size_mb'')")
      (auto simp add: validateUpload_def Let_def not_le)
  have handler: "handlePushToRemote h A =
      persistent_checks A em 0 (megabytes n * 2) (userStorageTier h) [EstimateDatabaseSize]"
    if "userRole h \<noteq> admin" "keepPersistent h" "isAllowed h" "user_email h = Some em"
      "userStorageTier h \<noteq> temp" "estimated A = Inr n" "\<not> megabytes n * 2 > 75"
    using that by (simp add: handlePushToRemote_def Let_def getEffectiveStorageTier_def)
  have refused: "persistent_checks A em 0 est tier calls =
      (FileLimitModal (getUserFileCount A em) (or_number (Some m) 2),
       calls @ [GetEffectiveLimits, GetUserFileCount])"
    if "nullish_null (getEffectiveLimits A em ''max_files'') = Some m" "getUserFileCount A em \<ge> m"
    for est tier calls
    using deny [of "getEffectiveLimits A em" m 0] that
    by (simp add: persistent_checks_refused or_number_def)
  have queried: "GetStorageStatus \<in> set (snd (persistent_checks A em 0 est tier calls))"
    if "\<forall>m. nullish_null (getEffectiveLimits A em ''max_files'') = Some m \<longrightarrow>
              getUserFileCount A em < m"
       "\<forall>s. nullish_null (getEffectiveLimits A em ''max_file_size_mb'') = Some s \<longrightarrow> 0 \<le> s"
    for est tier calls
  proof -
    have "allowed (validateUpload A em 0 (getEffectiveLimits A em))"
      using pass [of "getEffectiveLimits A em" 0] that by simp
    then show ?thesis
      by (simp add: persistent_checks_allowed split: option.splits)
  qed
  show ?thesis
    using deny [of L m sz] pass [of L sz] handler refused queried
    by (simp (no_asm_simp))
qed

text \<open>
  The theorem in the sample visit: two files of two are refused with the detail 2 and
  2, one file of two passes on to the capacity check.
\<close>

theorem file_count_quota_witness:
  "nullish_null (getEffectiveLimits full_account ''ann@example.com'' ''max_files'') = Some 2 \<and>
   getUserFileCount full_account ''ann@example.com'' = 2 \<and>
   validateUpload full_account ''ann@example.com'' 0
       (getEffectiveLimits full_account ''ann@example.com'') =
     \<lparr>allowed = False, reason = Some (FileLimitReached 2), userFileCount = Some 2,
      maxFiles = Some 2\<rparr> \<and>
   userRole loaded_Home \<noteq> admin \<and> keepPersistent loaded_Home \<and> isAllowed loaded_Home \<and>
   user_email loaded_Home = Some ''ann@example.com'' \<and> userStorageTier loaded_Home \<noteq> temp \<and>
   estimated full_account = Inr 13107200 \<and> \<not> megabytes 13107200 * 2 > 75 \<and>
   handlePushToRemote loaded_Home full_account =
     (FileLimitModal 2 2, [EstimateDatabaseSize, GetEffectiveLimits, GetUserFileCount]) \<and>
   getUserFileCount roomy_account ''ann@example.com'' = 1 \<and>
   allowed (validateUpload roomy_account ''ann@example.com'' 0
       (getEffectiveLimits roomy_account ''ann@example.com'')) \<and>
   GetStorageStatus \<in> set (snd (handlePushToRemote loaded_Home roomy_account))"
  using
    file_count_quota [of "getEffectiveLimits full_account ''ann@example.com''" 2 full_account
      "''ann@example.com''" 0 loaded_Home 13107200]
    file_count_quota [of "getEffectiveLimits roomy_account ''ann@example.com''" 2 roomy_account
      "''ann@example.com''" 0 loaded_Home 13107200]
  by (auto simp add: loaded_Home_simps sample_limits sample_counts sample_estimates
      nullish_null_def or_number_def)

text \<open>
  A maximum of 0 is refused by the decision with the detail 0 and 0; the modal of the
  handler shows it as 0 of 2.
\<close>

lemma zero_maximum_is_shown_as_two:
  "validateUpload zero_limit_account ''ann@example.com'' 0
       (getEffectiveLimits zero_limit_account ''ann@example.com'') =
     \<lparr>allowed = False, reason = Some (FileLimitReached 0), userFileCount = Some 0,
      maxFiles = Some 0\<rparr> \<and>
   handlePushToRemote loaded_Home zero_limit_account =
     (FileLimitModal 0 2, [EstimateDatabaseSize, GetEffectiveLimits, GetUserFileCount])"
  by (simp add: handlePushToRemote_def persistent_checks_def validateUpload_def Let_def
      loaded_Home_simps sample_limits sample_counts nullish_null_def or_number_def
      getEffectiveStorageTier_def sample_estimates)

subsection \<open>The guard on the loading role\<close>

text \<open>
  While the role is loading, the six intake handlers of the three workflows refuse
  with the request to wait (the two file inputs of the build and the conversion, and
  the one of the quick upload, once a file has been chosen).
\<close>

lemma intake_refused_while_loading:
  assumes "isRoleLoading h"
  shows "handleBuildDrop h fs = Refused PleaseWait"
    and "handleQuickDrop h fs = Refused PleaseWait"
    and "handleParquetDrop h fs = Refused PleaseWait"
    and "handleBuildFileInput h (f # fs) = Refused PleaseWait"
    and "handleQuickFileInput h (f # fs) = Refused PleaseWait"
    and "handleParquetFileInput h (f # fs) = Refused PleaseWait"
  using assms
  by (simp_all add: handleBuildDrop_def handleQuickDrop_def handleParquetDrop_def
      handleBuildFileInput_def handleQuickFileInput_def handleParquetFileInput_def)

text \<open>
  The three publish handlers do not read the loading flag: their outcome is the same
  whatever it holds.
\<close>

lemma loading_flag_unread:
  "user_email (h\<lparr>isRoleLoading := flag\<rparr>) = user_email h"
  "getEffectiveStorageTier (h\<lparr>isRoleLoading := flag\<rparr>) c = getEffectiveStorageTier h c"
  by (simp_all add: user_email_def getEffectiveStorageTier_def)

lemma publish_handlers_ignore_the_loading_flag:
  "handlePushToRemote (h\<lparr>isRoleLoading := flag\<rparr>) A = handlePushToRemote h A"
  "handleQuickUpload (h\<lparr>isRoleLoading := flag\<rparr>) f A = handleQuickUpload h f A"
  "handleParquetUploadToServer (h\<lparr>isRoleLoading := flag\<rparr>) b A = handleParquetUploadToServer h b A"
  by (simp_all add: handlePushToRemote_def handleQuickUpload_def handleParquetUploadToServer_def
      loading_flag_unread Let_def cong: if_cong sum.case_cong)

text \<open>
  Claim C9 fails on the three publish handlers: none of them reads the loading flag.
  In the sample visit the file was staged while nobody was signed in; the visitor then
  signs in, the role starts to load again, and the stored tier is still \<open>temp\<close>. A
  click on the upload button in that state, with \<open>Keep persistent\<close> ticked, goes on
  to the upload on the temporary tier in each of the three handlers, while a drop of a
  file in the same state is refused. Once the role has loaded, the same click runs the
  checks of the persistent tier and uploads there.
\<close>

theorem publish_while_role_is_loading:
  "isRoleLoading loading_Home \<and>
   isAllowed loading_Home \<and> keepPersistent loading_Home \<and> keepPersistentQuick loading_Home \<and>
   handleQuickDrop loading_Home [small_parquet] = Refused PleaseWait \<and>
   handlePushToRemote loading_Home roomy_account = (Proceed temp, [EstimateDatabaseSize]) \<and>
   handleQuickUpload loading_Home small_parquet roomy_account = (Proceed temp, []) \<and>
   handleParquetUploadToServer loading_Home ''PAR1'' roomy_account = (Proceed temp, []) \<and>
   handleQuickUpload loaded_Home small_parquet roomy_account =
     (Proceed persistent, [GetEffectiveLimits, GetUserFileCount, GetStorageStatus])"
  by (simp add: handlePushToRemote_def handleQuickUpload_def handleParquetUploadToServer_def
      handleQuickDrop_def persistent_checks_def Let_def getEffectiveStorageTier_def
      loading_Home_simps loaded_Home_simps sample_validation sample_status sample_estimates
      small_parquet_def megabytes_def ends_with_def toLowerCase_def toLowerCase_char_def)

subsection \<open>Size estimation\<close>

text \<open>One round of the loop: the table's encoding is written to its file and counted.\<close>

lemma estimate_loop_Cons:
  "estimate_loop H (t # ts) tot e =
     (case map_of (catalog e) (name t) of
        None \<Rightarrow> (Inl (Error ''Catalog Error: Table does not exist''), e)
      | Some rel \<Rightarrow>
          (case to_parquet H rel of
             Inl err \<Rightarrow> (Inl err, e)
           | Inr b \<Rightarrow>
               estimate_loop H ts (tot + length b)
                 (e\<lparr>files := (files e)(estimate_file t \<mapsto> b)\<rparr>)))"
  by (simp add: query_copy_to_parquet_def copyFileToBuffer_def estimate_file_def Let_def
      split: option.splits sum.splits)






text \<open>
  Where every table has an encoding, the estimate does return a count.
\<close>

lemma getTables_lookup:
  assumes "t \<in> set (getTables e)"
    and "\<forall>p \<in> set (catalog e). \<exists>b. to_parquet H (snd p) = Inr b"
  shows "\<exists>rel b. map_of (catalog e) (name t) = Some rel \<and> to_parquet H rel = Inr b"
proof -
  from assms(1) have "name t \<in> fst ` set (catalog e)"
    by (force simp add: getTables_def)
  then obtain rel where rel: "map_of (catalog e) (name t) = Some rel"
    by (cases "map_of (catalog e) (name t)") (auto simp add: map_of_eq_None_iff)
  then have "(name t, rel) \<in> set (catalog e)"
    by (rule map_of_SomeD)
  with assms(2) obtain b where "to_parquet H rel = Inr b"
    by fastforce
  with rel show ?thesis
    by blast
qed

lemma estimate_loop_succeeds:
  assumes "\<forall>t \<in> set ts. \<exists>rel b. map_of (catalog e) (name t) = Some rel \<and> to_parquet H rel = Inr b"
  shows "\<exists>n. fst (estimate_loop H ts tot e) = Inr n"
  using assms
proof (induction ts arbitrary: tot e)
  case Nil
  then show ?case by simp
next
  case (Cons t ts)
  from Cons.prems obtain rel b where
    rel: "map_of (catalog e) (name t) = Some rel" and b: "to_parquet H rel = Inr b"
    by auto
  have "\<exists>n. fst (estimate_loop H ts (tot + length b)
                (e\<lparr>files := (files e)(estimate_file t \<mapsto> b)\<rparr>)) = Inr n"
    by (rule Cons.IH) (use Cons.prems in simp)
  with rel b show ?case
    by (simp add: estimate_loop_Cons del: estimate_loop.simps)
qed

lemma estimate_succeeds:
  assumes "\<forall>p \<in> set (catalog e). \<exists>b. to_parquet H (snd p) = Inr b"
  shows "\<exists>n. fst (estimateDatabaseSize H e) = Inr n"
proof (cases "getTables e = []")
  case True
  then show ?thesis
    by (simp add: estimateDatabaseSize_def)
next
  case False
  have "\<exists>n. fst (estimate_loop H (getTables e) 0 e) = Inr n"
    by (rule estimate_loop_succeeds) (use assms getTables_lookup in blast)
  with False show ?thesis
    by (simp add: estimateDatabaseSize_def Let_def)
qed


subsection \<open>The sample session, evaluated\<close>

lemma getTables_session1:
  "getTables session1 =
    [\<lparr>name = ''orders'', rowCount = 1, columns = [\<lparr>col_name = ''total'', col_type = ''DOUBLE''\<rparr>]\<rparr>,
     \<lparr>name = ''users'', rowCount = 3,
      columns = [\<lparr>col_name = ''id'', col_type = ''BIGINT''\<rparr>,
                 \<lparr>col_name = ''name'', col_type = ''VARCHAR''\<rparr>]\<rparr>]"
  by (simp add: getTables_def session1_def users_rel_def orders_rel_def)









subsection \<open>Ingestion\<close>






subsection \<open>The bundle's manifest and DDL\<close>

lemma bundle_loop_Cons:
  "bundle_loop H (t # ts) z m e =
     (case map_of (catalog e) (name t) of
        None \<Rightarrow> (Inl (Error ''Catalog Error: Table does not exist''), e)
      | Some rel \<Rightarrow>
          (case to_parquet H rel of
             Inl err \<Rightarrow> (Inl err, e)
           | Inr b \<Rightarrow>
               bundle_loop H ts (zip_file (name t @ ''.parquet'') b z)
                 (m\<lparr>m_tables := m_tables m @ [manifest_entry t]\<rparr>)
                 (e\<lparr>files := (files e)(name t @ ''.parquet'' \<mapsto> b)\<rparr>)))"
  by (simp add: query_copy_to_parquet_def copyFileToBuffer_def manifest_entry_def Let_def
      split: option.splits sum.splits)





text \<open>
  Where there is a table and every table has an encoding, the export does build its
  bundle.
\<close>

lemma bundle_loop_succeeds:
  assumes "\<forall>t \<in> set ts. \<exists>rel b. map_of (catalog e) (name t) = Some rel \<and> to_parquet H rel = Inr b"
  shows "\<exists>out. fst (bundle_loop H ts z m e) = Inr out"
  using assms
proof (induction ts arbitrary: z m e)
  case Nil
  then show ?case by simp
next
  case (Cons t ts)
  from Cons.prems obtain rel b where
    rel: "map_of (catalog e) (name t) = Some rel" and b: "to_parquet H rel = Inr b"
    by auto
  have "\<exists>out. fst (bundle_loop H ts (zip_file (name t @ ''.parquet'') b z)
                 (m\<lparr>m_tables := m_tables m @ [manifest_entry t]\<rparr>)
                 (e\<lparr>files := (files e)(name t @ ''.parquet'' \<mapsto> b)\<rparr>)) = Inr out"
    by (rule Cons.IH) (use Cons.prems in simp)
  with rel b show ?case
    by (simp add: bundle_loop_Cons del: bundle_loop.simps)
qed

lemma zip_bundle_succeeds:
  assumes "getTables e \<noteq> []"
    and "\<forall>p \<in> set (catalog e). \<exists>b. to_parquet H (snd p) = Inr b"
  shows "\<exists>z. fst (zip_bundle H e) = Inr z"
proof -
  have "\<exists>out. fst (bundle_loop H (getTables e) Map.empty \<lparr>m_tables = [], m_chunked = False\<rparr> e) =
      Inr out"
    by (rule bundle_loop_succeeds) (use assms getTables_lookup in blast)
  then obtain z0 m e' where
    "bundle_loop H (getTables e) Map.empty \<lparr>m_tables = [], m_chunked = False\<rparr> e =
       (Inr (z0, m), e')"
    by (cases "bundle_loop H (getTables e) Map.empty \<lparr>m_tables = [], m_chunked = False\<rparr> e") auto
  with assms(1) show ?thesis
    by (simp add: zip_bundle_def Let_def)
qed








text \<open>The two texts for the sample session, line by line.\<close>

lemma schema_sql_session1:
  "schema_sql (getTables session1) =
     join [newline_char]
       [''CREATE TABLE '' @ [quote_char] @ ''orders'' @ [quote_char] @ '' ('',
        ''  '' @ [quote_char] @ ''total'' @ [quote_char] @ '' DOUBLE'',
        '');'',
        '''',
        ''CREATE TABLE '' @ [quote_char] @ ''users'' @ [quote_char] @ '' ('',
        ''  '' @ [quote_char] @ ''id'' @ [quote_char] @ '' BIGINT,'',
        ''  '' @ [quote_char] @ ''name'' @ [quote_char] @ '' VARCHAR'',
        '');'']"
  by (simp add: getTables_session1 schema_sql_def schemaStatements_def create_table_statement_def
      column_ddl_def)

lemma manifest_json_session1:
  "manifest_json (manifest_of (getTables session1)) =
     join [newline_char]
       [''{'',
        ''  '' @ [quote_char] @ ''tables'' @ [quote_char] @ '': ['',
        ''    {'',
        ''      '' @ [quote_char] @ ''name'' @ [quote_char] @ '': '' @ [quote_char] @ ''orders'' @ [quote_char] @ '','',
        ''      '' @ [quote_char] @ ''files'' @ [quote_char] @ '': ['',
        ''        '' @ [quote_char] @ ''orders.parquet'' @ [quote_char],
        ''      ],'',
        ''      '' @ [quote_char] @ ''rowCount'' @ [quote_char] @ '': 1'',
        ''    },'',
        ''    {'',
        ''      '' @ [quote_char] @ ''name'' @ [quote_char] @ '': '' @ [quote_char] @ ''users'' @ [quote_char] @ '','',
        ''      '' @ [quote_char] @ ''files'' @ [quote_char] @ '': ['',
        ''        '' @ [quote_char] @ ''users.parquet'' @ [quote_char],
        ''      ],'',
        ''      '' @ [quote_char] @ ''rowCount'' @ [quote_char] @ '': 3'',
        ''    }'',
        ''  ],'',
        ''  '' @ [quote_char] @ ''chunked'' @ [quote_char] @ '': false'',
        ''}'']"
  by (simp add: getTables_session1 manifest_of_def manifest_entry_def manifest_json_def
      manifest_value_def manifest_table_value_def JSON_stringify_2_def json_quote_def
      json_escape_def)


subsection \<open>The transfer client\<close>



text \<open>
  The failures of the transfer, by event: a network error, a cancellation, a successful
  status with a body that does not parse, and any other status; and those of the token
  request: a rejected \<open>fetch\<close> and a status that is not ok. Each is an \<open>Error\<close> with
  a message.
\<close>

lemma uploadWithToken_failures:
  "xhr_post N url fn d = XhrError \<Longrightarrow> get_property tok ''full_upload_url'' = Inr url \<Longrightarrow>
     uploadWithToken N d fn tok = Inl (Error ''Network error during upload'')"
  "xhr_post N url fn d = XhrAbort \<Longrightarrow> get_property tok ''full_upload_url'' = Inr url \<Longrightarrow>
     uploadWithToken N d fn tok = Inl (Error ''Upload cancelled'')"
  "xhr_post N url fn d = XhrLoad st body \<Longrightarrow> get_property tok ''full_upload_url'' = Inr url \<Longrightarrow>
     status_ok st \<Longrightarrow> JSON_parse N body = Inl e \<Longrightarrow>
     uploadWithToken N d fn tok = Inl (Error ''Invalid response from server'')"
  "xhr_post N url fn d = XhrLoad st body \<Longrightarrow> get_property tok ''full_upload_url'' = Inr url \<Longrightarrow>
     \<not> status_ok st \<Longrightarrow> \<exists>msg. uploadWithToken N d fn tok = Inl (Error msg)"
  by (auto simp add: uploadWithToken_def split: sum.splits prod.splits)

lemma getUploadToken_failures:
  "post_upload_token N fn n t = FetchRejected err \<Longrightarrow> getUploadToken N fn n t = Inl err"
  "post_upload_token N fn n t = FetchResponse st body \<Longrightarrow> \<not> status_ok st \<Longrightarrow>
     getUploadToken N fn n t =
       Inl (Error (''Failed to get upload token: '' @ decimal st @ '' - '' @ body))"
  by (simp_all add: getUploadToken_def)


lemma token_then_upload_Inl:
  "getUploadToken N fn (length d) t = Inl err \<Longrightarrow> token_then_upload N d fn t = Inl err"
  "getUploadToken N fn (length d) t = Inr tok \<Longrightarrow> token_prefix tok = Inr p \<Longrightarrow>
     uploadWithToken N d fn tok = Inl err \<Longrightarrow> token_then_upload N d fn t = Inl err"
  by (simp_all add: token_then_upload_def)












end
